theory Spec2Isabelle
  imports Main "HOL-Library.Word"
begin

unbundle bit_operations_syntax

section \<open>Common vocabulary\<close>

text \<open>
  Xlib declares \<^verbatim>\<open>Atom\<close>, \<^verbatim>\<open>Window\<close> and \<^verbatim>\<open>Time\<close> as \<^verbatim>\<open>unsigned long\<close>, and the
  \<^verbatim>\<open>data.l\<close> array of a client message as \<^verbatim>\<open>long\<close>. On the LP64 targets of the X11
  backend all of them are 64-bit machine words; a \<^verbatim>\<open>long\<close> is read as two's complement
  where the code does signed arithmetic on it.
\<close>

type_synonym ulong = "64 word"
type_synonym Atom = ulong
type_synonym Window = ulong
type_synonym Time = ulong
type_synonym byte = "8 word"

text \<open>The error kinds handed to \<^verbatim>\<open>_glfwInputError\<close>, which appends to the error sink.\<close>

datatype glfw_error =
    GLFW_INVALID_VALUE
  | GLFW_OUT_OF_MEMORY
  | GLFW_API_UNAVAILABLE
  | GLFW_VERSION_UNAVAILABLE
  | GLFW_PLATFORM_ERROR
  | GLFW_FORMAT_UNAVAILABLE

type_synonym error_report = "glfw_error \<times> string"

section \<open>Module loader (the first part of loader.c)\<close>

text \<open>
  A callback is known by its address only; a null function pointer and a null
  \<^verbatim>\<open>user\<close> pointer are \<open>None\<close>.
\<close>

type_synonym fnptr = nat

record GLFWmoduleloader =
  l_open :: "fnptr option"
  l_close :: "fnptr option"
  l_resolve :: "fnptr option"
  l_user :: "nat option"

record loader_state =
  glfwModuleLoader :: GLFWmoduleloader
  loader_errors :: "error_report list"

text \<open>The result of \<^verbatim>\<open>memset(&_glfwModuleLoader, 0, sizeof(GLFWmoduleloader))\<close>.\<close>

definition zeroed_loader :: GLFWmoduleloader where
  "zeroed_loader = \<lparr> l_open = None, l_close = None, l_resolve = None, l_user = None \<rparr>"

definition glfwInitModuleLoader :: "GLFWmoduleloader option \<Rightarrow> loader_state \<Rightarrow> loader_state" where
  "glfwInitModuleLoader loader s =
     (case loader of
        Some l \<Rightarrow>
          if l_open l \<noteq> None \<and> l_close l \<noteq> None \<and> l_resolve l \<noteq> None
          then s\<lparr>glfwModuleLoader := l\<rparr>
          else s\<lparr>loader_errors := loader_errors s @
                    [(GLFW_INVALID_VALUE, ''Missing function in module loader'')]\<rparr>
      | None \<Rightarrow> s\<lparr>glfwModuleLoader := zeroed_loader\<rparr>)"

text \<open>
  The three dispatchers either call the installed callback (with the installed
  \<^verbatim>\<open>user\<close> pointer) or fall through to the platform's own loader.
\<close>

datatype loader_call =
    CallOpen fnptr string "nat option"
  | CallClose fnptr nat "nat option"
  | CallResolve fnptr nat string "nat option"
  | PlatformLoadModule string
  | PlatformFreeModule nat
  | PlatformGetModuleSymbol nat string

definition glfwModuleLoaderOpen :: "loader_state \<Rightarrow> string \<Rightarrow> loader_call" where
  "glfwModuleLoaderOpen s path =
     (case l_open (glfwModuleLoader s) of
        Some f \<Rightarrow> CallOpen f path (l_user (glfwModuleLoader s))
      | None \<Rightarrow> PlatformLoadModule path)"

definition glfwModuleLoaderClose :: "loader_state \<Rightarrow> nat \<Rightarrow> loader_call" where
  "glfwModuleLoaderClose s module =
     (case l_close (glfwModuleLoader s) of
        Some f \<Rightarrow> CallClose f module (l_user (glfwModuleLoader s))
      | None \<Rightarrow> PlatformFreeModule module)"

definition glfwModuleLoaderResolve :: "loader_state \<Rightarrow> nat \<Rightarrow> string \<Rightarrow> loader_call" where
  "glfwModuleLoaderResolve s module name =
     (case l_resolve (glfwModuleLoader s) of
        Some f \<Rightarrow> CallResolve f module name (l_user (glfwModuleLoader s))
      | None \<Rightarrow> PlatformGetModuleSymbol module name)"

text \<open>A triplet is complete when none of its three functions is missing.\<close>

definition complete_triplet :: "GLFWmoduleloader \<Rightarrow> bool" where
  "complete_triplet l \<longleftrightarrow> l_open l \<noteq> None \<and> l_close l \<noteq> None \<and> l_resolve l \<noteq> None"


section \<open>EGL context backend (egl_context.c)\<close>

datatype platform_id =
    GLFW_PLATFORM_WIN32
  | GLFW_PLATFORM_COCOA
  | GLFW_PLATFORM_WAYLAND
  | GLFW_PLATFORM_X11
  | GLFW_PLATFORM_NULL

datatype client_api = GLFW_NO_API | GLFW_OPENGL_API | GLFW_OPENGL_ES_API

subsection \<open>Destroying a context\<close>

text \<open>
  \<^verbatim>\<open>window->context.egl\<close>: the client library module, the surface and the context, each
  a handle or null.
\<close>

record egl_context =
  egl_client :: "nat option"
  egl_surface :: "nat option"
  egl_handle :: "nat option"

record egl_window =
  context_client :: client_api
  context_egl :: egl_context

datatype egl_call =
    glfwPlatformFreeModule nat
  | eglDestroySurface nat
  | eglDestroyContext nat

definition destroyContextEGL :: "platform_id \<Rightarrow> egl_window \<Rightarrow> egl_window \<times> egl_call list" where
  "destroyContextEGL platformID window =
     (let (e1, t1) =
            (if platformID \<noteq> GLFW_PLATFORM_X11 \<or> context_client window \<noteq> GLFW_OPENGL_API
             then (case egl_client (context_egl window) of
                     Some m \<Rightarrow> ((context_egl window)\<lparr>egl_client := None\<rparr>, [glfwPlatformFreeModule m])
                   | None \<Rightarrow> (context_egl window, []))
             else (context_egl window, []));
          (e2, t2) =
            (case egl_surface e1 of
               Some sf \<Rightarrow> (e1\<lparr>egl_surface := None\<rparr>, t1 @ [eglDestroySurface sf])
             | None \<Rightarrow> (e1, t1));
          (e3, t3) =
            (case egl_handle e2 of
               Some c \<Rightarrow> (e2\<lparr>egl_handle := None\<rparr>, t2 @ [eglDestroyContext c])
             | None \<Rightarrow> (e2, t2))
      in (window\<lparr>context_egl := e3\<rparr>, t3))"

text \<open>
  The note in \<^verbatim>\<open>destroyContextEGL\<close> names the one configuration in which the native
  connection still needs the client library: the X11 display, whose \<^verbatim>\<open>XCloseDisplay\<close>
  runs into \<^verbatim>\<open>libGL.so.1\<close>, the library loaded for a desktop OpenGL context.
\<close>

definition connection_needs_client_library :: "platform_id \<Rightarrow> egl_window \<Rightarrow> bool" where
  "connection_needs_client_library platformID window \<longleftrightarrow>
     platformID = GLFW_PLATFORM_X11 \<and> context_client window = GLFW_OPENGL_API"

subsection \<open>Choosing a configuration\<close>

text \<open>Values of \<^verbatim>\<open>EGL/egl.h\<close>; \<^verbatim>\<open>EGLint\<close> attribute values are integers.\<close>

definition EGL_RGB_BUFFER :: int where "EGL_RGB_BUFFER = 0x308E"
definition EGL_PBUFFER_BIT :: int where "EGL_PBUFFER_BIT = 0x0001"
definition EGL_WINDOW_BIT :: int where "EGL_WINDOW_BIT = 0x0004"
definition EGL_OPENGL_ES_BIT :: int where "EGL_OPENGL_ES_BIT = 0x0001"
definition EGL_OPENGL_ES2_BIT :: int where "EGL_OPENGL_ES2_BIT = 0x0004"
definition EGL_OPENGL_BIT :: int where "EGL_OPENGL_BIT = 0x0008"

text \<open>
  An \<^verbatim>\<open>EGLConfig\<close> as \<^verbatim>\<open>getEGLConfigAttrib\<close> sees it: the handle and the attributes
  the chooser queries.
\<close>

record native_config =
  config_handle :: nat
  COLOR_BUFFER_TYPE :: int
  SURFACE_TYPE :: int
  NATIVE_VISUAL_ID :: int
  RENDERABLE_TYPE :: int
  RED_SIZE :: int
  GREEN_SIZE :: int
  BLUE_SIZE :: int
  ALPHA_SIZE :: int
  DEPTH_SIZE :: int
  STENCIL_SIZE :: int
  SAMPLES :: int

text \<open>The fields of \<^verbatim>\<open>_GLFWfbconfig\<close> that the chooser reads or writes.\<close>

record GLFWfbconfig =
  redBits :: int
  greenBits :: int
  blueBits :: int
  alphaBits :: int
  depthBits :: int
  stencilBits :: int
  stereo :: bool
  samples :: int
  doublebuffer :: bool
  transparent :: bool
  handle :: nat

record GLFWctxconfig =
  client :: client_api
  major :: int

text \<open>
  What the chooser takes from its surroundings: the selected platform, which backends
  were compiled in, the cached extension flag, the two X11 visual queries, and
  \<^verbatim>\<open>_glfwChooseFBConfig\<close> of context.c, which either returns one of the candidates it
  is given or null.
\<close>

record egl_env =
  platformID :: platform_id
  GLFW_X11_defined :: bool
  GLFW_WAYLAND_defined :: bool
  EXT_present_opaque :: bool
  XGetVisualInfo :: "int \<Rightarrow> nat option"
  glfwIsVisualTransparentX11 :: "nat \<Rightarrow> bool"
  glfwChooseFBConfig :: "GLFWfbconfig \<Rightarrow> GLFWfbconfig list \<Rightarrow> GLFWfbconfig option"

definition apiBit :: "GLFWctxconfig \<Rightarrow> int" where
  "apiBit ctxconfig =
     (if client ctxconfig = GLFW_OPENGL_ES_API
      then (if major ctxconfig = 1 then EGL_OPENGL_ES_BIT else EGL_OPENGL_ES2_BIT)
      else EGL_OPENGL_BIT)"

definition surfaceBit :: "egl_env \<Rightarrow> int" where
  "surfaceBit env =
     (if platformID env = GLFW_PLATFORM_NULL then EGL_PBUFFER_BIT else EGL_WINDOW_BIT)"

text \<open>An element of the \<^verbatim>\<open>_glfw_calloc\<close>'ed array \<^verbatim>\<open>usableConfigs\<close>, before it is written.\<close>

definition zeroed_fbconfig :: GLFWfbconfig where
  "zeroed_fbconfig =
     \<lparr> redBits = 0, greenBits = 0, blueBits = 0, alphaBits = 0, depthBits = 0,
       stencilBits = 0, stereo = False, samples = 0, doublebuffer = False,
       transparent = False, handle = 0 \<rparr>"

text \<open>
  The state of the enumeration loop: the first \<^verbatim>\<open>usableCount\<close> elements of
  \<^verbatim>\<open>usableConfigs\<close>, the element \<^verbatim>\<open>u = usableConfigs + usableCount\<close> being filled (it
  keeps what a discarded configuration wrote into it), and \<^verbatim>\<open>wrongApiAvailable\<close>.
\<close>

record scan_state =
  usable :: "GLFWfbconfig list"
  u_slot :: GLFWfbconfig
  wrongApiAvailable :: bool

definition visual_required :: "egl_env \<Rightarrow> bool" where
  "visual_required env \<longleftrightarrow> GLFW_X11_defined env \<and> platformID env = GLFW_PLATFORM_X11"

definition scan_config ::
  "egl_env \<Rightarrow> GLFWctxconfig \<Rightarrow> GLFWfbconfig \<Rightarrow> native_config \<Rightarrow> scan_state \<Rightarrow> scan_state" where
  "scan_config env ctxconfig fbconfig n st =
     (if COLOR_BUFFER_TYPE n \<noteq> EGL_RGB_BUFFER then st
      else if SURFACE_TYPE n AND surfaceBit env = 0 then st
      else if visual_required env \<and> NATIVE_VISUAL_ID n = 0 then st
      else
        let u1 = (if visual_required env \<and> transparent fbconfig
                  then (case XGetVisualInfo env (NATIVE_VISUAL_ID n) of
                          Some vis \<Rightarrow> (u_slot st)\<lparr>transparent := glfwIsVisualTransparentX11 env vis\<rparr>
                        | None \<Rightarrow> u_slot st)
                  else u_slot st)
        in if RENDERABLE_TYPE n AND apiBit ctxconfig = 0
           then st\<lparr>u_slot := u1, wrongApiAvailable := True\<rparr>
           else
             let u2 = u1\<lparr>redBits := RED_SIZE n, greenBits := GREEN_SIZE n,
                        blueBits := BLUE_SIZE n, alphaBits := ALPHA_SIZE n,
                        depthBits := DEPTH_SIZE n, stencilBits := STENCIL_SIZE n\<rparr>
             in if GLFW_WAYLAND_defined env \<and> platformID env = GLFW_PLATFORM_WAYLAND \<and>
                   \<not> EXT_present_opaque env \<and> \<not> transparent fbconfig \<and> alphaBits u2 > 0
                then st\<lparr>u_slot := u2\<rparr>
                else
                  st\<lparr>usable := usable st @
                        [u2\<lparr>samples := SAMPLES n, doublebuffer := doublebuffer fbconfig,
                            handle := config_handle n\<rparr>],
                     u_slot := zeroed_fbconfig\<rparr>)"

definition scan_configs ::
  "egl_env \<Rightarrow> GLFWctxconfig \<Rightarrow> GLFWfbconfig \<Rightarrow> native_config list \<Rightarrow> scan_state" where
  "scan_configs env ctxconfig fbconfig nativeConfigs =
     fold (scan_config env ctxconfig fbconfig) nativeConfigs
       \<lparr> usable = [], u_slot = zeroed_fbconfig, wrongApiAvailable = False \<rparr>"

text \<open>
  The result: the returned flag, \<^verbatim>\<open>*result\<close> when it was written, and what was reported
  to the error sink.
\<close>

definition chooseEGLConfig ::
  "egl_env \<Rightarrow> GLFWctxconfig \<Rightarrow> GLFWfbconfig \<Rightarrow> native_config list
     \<Rightarrow> bool \<times> nat option \<times> error_report list" where
  "chooseEGLConfig env ctxconfig fbconfig nativeConfigs =
     (if stereo fbconfig
      then (False, None, [(GLFW_FORMAT_UNAVAILABLE, ''EGL: Stereo rendering not supported'')])
      else if nativeConfigs = []
      then (False, None, [(GLFW_API_UNAVAILABLE, ''EGL: No EGLConfigs returned'')])
      else
        let st = scan_configs env ctxconfig fbconfig nativeConfigs
        in case glfwChooseFBConfig env fbconfig (usable st) of
             Some closest \<Rightarrow> (True, Some (handle closest), [])
           | None \<Rightarrow>
               (False, None,
                [if wrongApiAvailable st
                 then (if client ctxconfig = GLFW_OPENGL_ES_API
                       then (if major ctxconfig = 1
                             then (GLFW_API_UNAVAILABLE,
                                   ''EGL: Failed to find support for OpenGL ES 1.x'')
                             else (GLFW_API_UNAVAILABLE,
                                   ''EGL: Failed to find support for OpenGL ES 2 or later''))
                       else (GLFW_API_UNAVAILABLE, ''EGL: Failed to find support for OpenGL''))
                 else (GLFW_FORMAT_UNAVAILABLE, ''EGL: Failed to find a suitable EGLConfig'')]))"

text \<open>
  The bit of \<^verbatim>\<open>EGL_RENDERABLE_TYPE\<close> that a configuration needs for the requested client
  API, as the EGL specification assigns them: \<^verbatim>\<open>0x0001\<close> for OpenGL ES 1.x, \<^verbatim>\<open>0x0004\<close> for
  OpenGL ES 2 or later, \<^verbatim>\<open>0x0008\<close> for OpenGL.
\<close>

definition requested_api_bit :: "GLFWctxconfig \<Rightarrow> int" where
  "requested_api_bit ctxconfig =
     (case client ctxconfig of
        GLFW_OPENGL_ES_API \<Rightarrow> (if major ctxconfig = 1 then 0x0001 else 0x0004)
      | GLFW_OPENGL_API \<Rightarrow> 0x0008
      | GLFW_NO_API \<Rightarrow> 0x0008)"

text \<open>
  A configuration discarded for the wrong client API alone: it has an RGB colour
  buffer, it can back the platform's kind of surface (a window, or a pbuffer on the
  null platform), it has a visual where the platform needs one, and it lacks the bit
  of the requested API.
\<close>

definition wrong_api_only :: "egl_env \<Rightarrow> GLFWctxconfig \<Rightarrow> native_config \<Rightarrow> bool" where
  "wrong_api_only env ctxconfig n \<longleftrightarrow>
     COLOR_BUFFER_TYPE n = 0x308E \<and>
     SURFACE_TYPE n AND (if platformID env = GLFW_PLATFORM_NULL then 0x0001 else 0x0004) \<noteq> 0 \<and>
     \<not> (visual_required env \<and> NATIVE_VISUAL_ID n = 0) \<and>
     RENDERABLE_TYPE n AND requested_api_bit ctxconfig = 0"

section \<open>X11 window backend (the X11 part of loader.c)\<close>

subsection \<open>Data\<close>

text \<open>
  A C string is the list of its bytes before the terminating NUL; a null \<^verbatim>\<open>char*\<close> is
  \<open>None\<close>. A buffer whose length is known separately may hold NUL bytes; read as a C
  string it ends at the first of them.
\<close>

type_synonym cstring = "byte list"

definition cstr :: "byte list \<Rightarrow> cstring" where
  "cstr buf = takeWhile (\<lambda>b. b \<noteq> 0) buf"

text \<open>Pointers to \<^verbatim>\<open>_GLFWwindow\<close> and \<^verbatim>\<open>_GLFWmonitor\<close> objects.\<close>

type_synonym wptr = nat
type_synonym mptr = nat

text \<open>Values of \<^verbatim>\<open>X11/X.h\<close> and \<^verbatim>\<open>X11/Xatom.h\<close>.\<close>

definition X_None :: ulong where "X_None = 0"
definition CurrentTime :: Time where "CurrentTime = 0"
definition XA_ATOM :: Atom where "XA_ATOM = 4"
definition XA_STRING :: Atom where "XA_STRING = 31"
definition NoEventMask :: int where "NoEventMask = 0"
definition SubstructureNotifyMask :: int where "SubstructureNotifyMask = 0x80000"
definition SubstructureRedirectMask :: int where "SubstructureRedirectMask = 0x100000"
definition DontPreferBlanking :: int where "DontPreferBlanking = 0"
definition DefaultExposures :: int where "DefaultExposures = 2"
definition GLFW_XDND_VERSION :: int where "GLFW_XDND_VERSION = 5"

text \<open>The atoms interned at initialisation and kept in \<^verbatim>\<open>_glfw.x11\<close>.\<close>

record x11_atoms =
  TARGETS :: Atom
  MULTIPLE :: Atom
  INCR :: Atom
  CLIPBOARD :: Atom
  PRIMARY :: Atom
  SAVE_TARGETS :: Atom
  NULL_atom :: Atom
  UTF8_STRING :: Atom
  ATOM_PAIR :: Atom
  GLFW_SELECTION :: Atom
  WM_PROTOCOLS :: Atom
  WM_DELETE_WINDOW :: Atom
  NET_WM_PING :: Atom
  XdndEnter :: Atom
  XdndPosition :: Atom
  XdndStatus :: Atom
  XdndActionCopy :: Atom
  XdndDrop :: Atom
  XdndFinished :: Atom
  XdndSelection :: Atom
  XdndTypeList :: Atom
  text_uri_list :: Atom

text \<open>The event structures of Xlib, with the fields the code reads or writes.\<close>

record XKeyEvent =
  k_window :: Window
  k_keycode :: nat
  k_state :: int
  k_time :: Time

record XClientMessageEvent =
  c_window :: Window
  c_message_type :: Atom
  c_format :: int
  c_l0 :: ulong
  c_l1 :: ulong
  c_l2 :: ulong
  c_l3 :: ulong
  c_l4 :: ulong

record XSelectionRequestEvent =
  r_requestor :: Window
  r_selection :: Atom
  r_target :: Atom
  r_property :: Atom
  r_time :: Time

record XSelectionEvent =
  n_requestor :: Window
  n_selection :: Atom
  n_target :: Atom
  n_property :: Atom
  n_time :: Time

text \<open>The events \<^verbatim>\<open>processEvent\<close> is followed through here, and the events the code sends.\<close>

datatype XEvent =
    KeyPress XKeyEvent
  | KeyRelease XKeyEvent
  | ClientMessage XClientMessageEvent
  | SelectionRequest XSelectionRequestEvent

datatype sent_event =
    SelectionNotify XSelectionEvent
  | ClientMessageReply XClientMessageEvent

datatype property_value = PropBytes "byte list" | PropLongs "ulong list"

datatype key_action = GLFW_RELEASE | GLFW_PRESS

text \<open>
  The calls that leave the function being modelled, in the order they are made: Xlib
  requests, calls into other translation units of the library, and the calls into the
  event sink. \<open>convertLatin1toUTF8_of\<close> records a call of \<^verbatim>\<open>convertLatin1toUTF8\<close> with
  its argument.
\<close>

datatype action =
    XChangeProperty Window Atom Atom nat property_value
  | XSendEvent Window int sent_event
  | XConvertSelection Atom Atom Atom Window Time
  | XGetWindowProperty_delete Window Atom
  | XSetSelectionOwner Atom Window Time
  | XFlush
  | XGetScreenSaver
  | XSetScreenSaver int int int int
  | XMoveResizeWindow_over_monitor Window mptr
  | glfwSetVideoModeX11 mptr wptr
  | glfwRestoreVideoModeX11 mptr
  | glfwInputKey wptr int nat key_action int
  | glfwInputChar wptr "32 word" int bool
  | glfwInputCursorPos wptr int int
  | glfwInputWindowCloseRequest wptr
  | glfwInputError glfw_error string
  | convertLatin1toUTF8_of cstring

text \<open>
  Where the C code would leave defined behaviour or never return, the model returns a
  fault instead of a result.
\<close>

datatype fault = NullPointer | OutOfBounds | BufferOverrun | Blocked

text \<open>The fields of \<^verbatim>\<open>_GLFWwindow\<close> used here.\<close>

record GLFWwindow =
  x11_handle :: Window
  monitor :: "mptr option"
  x11_overrideRedirect :: bool
  x11_ic :: "nat option"
  x11_keyPressTimes :: "nat \<Rightarrow> Time"

text \<open>
  The state: the fields of \<^verbatim>\<open>_glfw.x11\<close> used here, the window objects and the
  \<^verbatim>\<open>XFindContext\<close> table leading to them, \<^verbatim>\<open>monitor->window\<close> for every monitor, the
  two pieces of server state the code reads back (selection owners and screen saver
  settings), and the calls made so far.
\<close>

record x11_state =
  helperWindowHandle :: Window
  root :: Window
  clipboardString :: "cstring option"
  primarySelectionString :: "cstring option"
  saver_count :: int
  saver_timeout :: int
  saver_interval :: int
  saver_blanking :: int
  saver_exposure :: int
  xdnd_source :: Window
  xdnd_version :: "32 word"
  xdnd_format :: Atom
  xkb_detectable :: bool
  keycodes :: "nat \<Rightarrow> int"
  windows :: "wptr \<Rightarrow> GLFWwindow"
  context_table :: "Window \<Rightarrow> wptr option"
  monitor_window :: "mptr \<Rightarrow> wptr option"
  selection_owner :: "Atom \<Rightarrow> Window"
  server_saver :: "int \<times> int \<times> int \<times> int"
  trace :: "action list"

definition emit :: "action list \<Rightarrow> x11_state \<Rightarrow> x11_state" where
  "emit acts s = s\<lparr>trace := trace s @ acts\<rparr>"

subsection \<open>Serving a selection request\<close>

text \<open>
  A property that \<^verbatim>\<open>_glfwGetWindowPropertyX11\<close> reads as an array of atoms: the item
  count and the elements by index.
\<close>

type_synonym atom_array = "nat \<times> (nat \<Rightarrow> Atom)"

text \<open>
  The loop over the atom pairs of a MULTIPLE request, \<open>i\<close> advancing by two. The array
  has \<open>count\<close> elements: with an odd count the last round reads and writes
  \<^verbatim>\<open>targets[i + 1]\<close> behind it.
\<close>

function multiple_loop ::
  "x11_atoms \<Rightarrow> Window \<Rightarrow> cstring option \<Rightarrow> nat \<Rightarrow> nat \<Rightarrow> (nat \<Rightarrow> Atom) \<Rightarrow> action list
     \<Rightarrow> fault + ((nat \<Rightarrow> Atom) \<times> action list)" where
  "multiple_loop A requestor selectionString count i targets acts =
     (if i < count
      then (if count \<le> i + 1 then Inl OutOfBounds
            else if targets i = UTF8_STRING A \<or> targets i = XA_STRING
            then (case selectionString of
                    None \<Rightarrow> Inl NullPointer
                  | Some str \<Rightarrow>
                      multiple_loop A requestor selectionString count (i + 2) targets
                        (acts @ [XChangeProperty requestor (targets (i + 1)) (targets i) 8
                                   (PropBytes str)]))
            else multiple_loop A requestor selectionString count (i + 2)
                   (targets(i + 1 := X_None)) acts)
      else Inr (targets, acts))"
  by pat_completeness auto
termination
  by (relation "measure (\<lambda>(A, requestor, selectionString, count, i, targets, acts). count - i)") auto

declare multiple_loop.simps [simp del]

definition writeTargetToProperty ::
  "x11_atoms \<Rightarrow> (Window \<Rightarrow> Atom \<Rightarrow> Atom \<Rightarrow> atom_array) \<Rightarrow> x11_state \<Rightarrow> XSelectionRequestEvent
     \<Rightarrow> fault + (Atom \<times> action list)" where
  "writeTargetToProperty A readProperty s request =
     (let selectionString =
            (if r_selection request = PRIMARY A then primarySelectionString s
             else clipboardString s)
      in
      if r_property request = X_None then Inr (X_None, [])
      else if r_target request = TARGETS A
      then Inr (r_property request,
                [XChangeProperty (r_requestor request) (r_property request) XA_ATOM 32
                   (PropLongs [TARGETS A, MULTIPLE A, UTF8_STRING A, XA_STRING])])
      else if r_target request = MULTIPLE A
      then (case readProperty (r_requestor request) (r_property request) (ATOM_PAIR A) of
              (count, targets) \<Rightarrow>
                (case multiple_loop A (r_requestor request) selectionString count 0 targets [] of
                   Inl f \<Rightarrow> Inl f
                 | Inr (targets', acts) \<Rightarrow>
                     Inr (r_property request,
                          acts @
                          [XChangeProperty (r_requestor request) (r_property request)
                             (ATOM_PAIR A) 32 (PropLongs (map targets' [0..<count]))])))
      else if r_target request = SAVE_TARGETS A
      then Inr (r_property request,
                [XChangeProperty (r_requestor request) (r_property request) (NULL_atom A) 32
                   (PropLongs [])])
      else if r_target request = UTF8_STRING A \<or> r_target request = XA_STRING
      then (case selectionString of
              None \<Rightarrow> Inl NullPointer
            | Some str \<Rightarrow>
                Inr (r_property request,
                     [XChangeProperty (r_requestor request) (r_property request)
                        (r_target request) 8 (PropBytes str)]))
      else Inr (X_None, []))"

definition handleSelectionRequest ::
  "x11_atoms \<Rightarrow> (Window \<Rightarrow> Atom \<Rightarrow> Atom \<Rightarrow> atom_array) \<Rightarrow> x11_state \<Rightarrow> XSelectionRequestEvent
     \<Rightarrow> fault + x11_state" where
  "handleSelectionRequest A readProperty s request =
     (case writeTargetToProperty A readProperty s request of
        Inl f \<Rightarrow> Inl f
      | Inr (property, acts) \<Rightarrow>
          Inr (emit (acts @
                 [XSendEvent (r_requestor request) 0
                    (SelectionNotify
                       \<lparr> n_requestor = r_requestor request,
                         n_selection = r_selection request,
                         n_target = r_target request,
                         n_property = property,
                         n_time = r_time request \<rparr>)]) s))"

text \<open>
  The targets a request can name with success, and the string the request reads: the
  process holds the requested selection's string exactly when that pointer is not null.
\<close>

definition supported_target :: "x11_atoms \<Rightarrow> Atom \<Rightarrow> bool" where
  "supported_target A t \<longleftrightarrow>
     t = TARGETS A \<or> t = MULTIPLE A \<or> t = SAVE_TARGETS A \<or> t = UTF8_STRING A \<or> t = XA_STRING"

definition requested_string :: "x11_atoms \<Rightarrow> x11_state \<Rightarrow> XSelectionRequestEvent \<Rightarrow> cstring option" where
  "requested_string A s request =
     (if r_selection request = PRIMARY A then primarySelectionString s else clipboardString s)"

definition rejected :: "x11_atoms \<Rightarrow> XSelectionRequestEvent \<Rightarrow> bool" where
  "rejected A request \<longleftrightarrow>
     r_property request = X_None \<or> \<not> supported_target A (r_target request)"

text \<open>
  The property of a MULTIPLE request is of type ATOM_PAIR, a list of pairs of atoms:
  it is well formed when its item count is even. Other requests read no such property.
\<close>

definition whole_pairs ::
  "x11_atoms \<Rightarrow> (Window \<Rightarrow> Atom \<Rightarrow> Atom \<Rightarrow> atom_array) \<Rightarrow> XSelectionRequestEvent \<Rightarrow> bool" where
  "whole_pairs A readProperty request \<longleftrightarrow>
     r_target request \<noteq> MULTIPLE A \<or>
     even (fst (readProperty (r_requestor request) (r_property request) (ATOM_PAIR A)))"

definition selection_replies :: "action list \<Rightarrow> XSelectionEvent list" where
  "selection_replies acts =
     concat (map (\<lambda>a. case a of XSendEvent w m (SelectionNotify e) \<Rightarrow> [e] | _ \<Rightarrow> []) acts)"


subsection \<open>Reading a selection\<close>

text \<open>
  What the code takes from outside this file: whether \<^verbatim>\<open>char\<close> is signed on the target,
  \<^verbatim>\<open>_glfwEncodeUTF8\<close> of init.c (the bytes it writes for a code point),
  \<^verbatim>\<open>_glfwKeySym2Unicode\<close> of xkb_unicode.c, and the answers of the X server and the
  input method to the queries the event handler makes.
\<close>

datatype lookup_status = XBufferOverflow | XLookupNone | XLookupChars | XLookupKeySym | XLookupBoth

record x11_env =
  char_is_signed :: bool
  glfwEncodeUTF8 :: "32 word \<Rightarrow> byte list"
  glfwKeySym2Unicode :: "nat \<Rightarrow> 32 word"
  getWindowProperty :: "Window \<Rightarrow> Atom \<Rightarrow> Atom \<Rightarrow> atom_array"
  Xutf8LookupString :: "XKeyEvent \<Rightarrow> lookup_status \<times> byte list"
  XLookupString_keysym :: "XKeyEvent \<Rightarrow> nat"
  XTranslateCoordinates :: "Window \<Rightarrow> Window \<Rightarrow> int \<Rightarrow> int \<Rightarrow> int \<times> int"

text \<open>The conversion of a \<^verbatim>\<open>char\<close> to the \<^verbatim>\<open>uint32_t\<close> parameter of the encoder.\<close>

definition char_to_uint32 :: "x11_env \<Rightarrow> byte \<Rightarrow> 32 word" where
  "char_to_uint32 E c = (if char_is_signed E then scast c else ucast c)"

text \<open>
  \<^verbatim>\<open>convertLatin1toUTF8\<close> sizes the target as one byte per character below 0x80 and
  two per other character, plus the terminator, and lets the encoder write into it.
\<close>

definition convertLatin1toUTF8 :: "x11_env \<Rightarrow> cstring \<Rightarrow> fault + cstring" where
  "convertLatin1toUTF8 E source =
     (let bufsize = 1 + sum_list (map (\<lambda>c. if c AND 0x80 \<noteq> 0 then 2 else 1 :: nat) source);
          written = concat (map (\<lambda>c. glfwEncodeUTF8 E (char_to_uint32 E c)) source)
      in if bufsize < length written + 1 then Inl BufferOverrun else Inr (cstr written))"

text \<open>
  One \<^verbatim>\<open>XGetWindowProperty\<close> answer, and everything the server sends for one
  \<^verbatim>\<open>XConvertSelection\<close>: the SelectionNotify event, the property read after it, and
  the reads that follow the PropertyNotify events of an incremental transfer.
\<close>

record property_read =
  actualType :: Atom
  itemCount :: nat
  data :: "byte list"

record conversion =
  notification_requestor :: Window
  notification_property :: Atom
  first_read :: property_read
  incr_reads :: "property_read list"

text \<open>
  The \<^verbatim>\<open>for (;;)\<close> loop of an INCR transfer over the reads still to come. \<open>string\<close> is
  the accumulated C string, \<open>bufsize\<close> the size of its buffer. Writing NUL at
  \<^verbatim>\<open>size - itemCount - 1\<close> cuts the C string there at most; \<^verbatim>\<open>strcat\<close> then appends the
  chunk read as a C string. With no read left the code waits for ever.
\<close>

fun incr_loop ::
  "Window \<Rightarrow> Atom \<Rightarrow> property_read list \<Rightarrow> nat \<Rightarrow> cstring option \<Rightarrow> action list
     \<Rightarrow> fault + (cstring option \<times> action list)" where
  "incr_loop w p [] bufsize string acts = Inl Blocked"
| "incr_loop w p (r # rs) bufsize string acts =
     (let acts' = acts @ [XGetWindowProperty_delete w p] in
      if itemCount r \<noteq> 0
      then (let bufsize' = bufsize + itemCount r;
                terminated = take (bufsize' - itemCount r - 1)
                               (case string of None \<Rightarrow> [] | Some a \<Rightarrow> a);
                appended = terminated @ cstr (data r)
            in if bufsize' < length appended + 1 then Inl BufferOverrun
               else incr_loop w p rs bufsize' (Some appended) acts')
      else Inr (string, acts'))"

text \<open>
  The loop over the target formats. It returns the new \<^verbatim>\<open>*selectionString\<close>, which is
  null on entry and ends the loop as soon as it is not.
\<close>

fun convert_loop ::
  "x11_env \<Rightarrow> x11_atoms \<Rightarrow> Atom \<Rightarrow> Window \<Rightarrow> Atom list \<Rightarrow> conversion list \<Rightarrow> action list
     \<Rightarrow> fault + (cstring option \<times> action list)" where
  "convert_loop E A selection helper [] convs acts = Inr (None, acts)"
| "convert_loop E A selection helper (t # ts) [] acts = Inl Blocked"
| "convert_loop E A selection helper (t # ts) (c # cs) acts =
     (let acts1 = acts @ [XConvertSelection selection t (GLFW_SELECTION A) helper CurrentTime] in
      if notification_property c = X_None
      then convert_loop E A selection helper ts cs acts1
      else
        let acts2 = acts1 @ [XGetWindowProperty_delete (notification_requestor c)
                               (notification_property c)]
        in if actualType (first_read c) = INCR A
           then (case incr_loop (notification_requestor c) (notification_property c)
                        (incr_reads c) 1 None acts2 of
                   Inl f \<Rightarrow> Inl f
                 | Inr (None, acts3) \<Rightarrow> convert_loop E A selection helper ts cs acts3
                 | Inr (Some string, acts3) \<Rightarrow>
                     if t = XA_STRING
                     then (case convertLatin1toUTF8 E string of
                             Inl f \<Rightarrow> Inl f
                           | Inr utf8 \<Rightarrow> Inr (Some utf8, acts3 @ [convertLatin1toUTF8_of string]))
                     else Inr (Some string, acts3))
           else if actualType (first_read c) = t
           then (if t = XA_STRING
                 then (case convertLatin1toUTF8 E (cstr (data (first_read c))) of
                         Inl f \<Rightarrow> Inl f
                       | Inr utf8 \<Rightarrow>
                           Inr (Some utf8,
                                acts2 @ [convertLatin1toUTF8_of (cstr (data (first_read c)))]))
                 else Inr (Some (cstr (data (first_read c))), acts2))
           else convert_loop E A selection helper ts cs acts2)"

definition getSelectionString ::
  "x11_env \<Rightarrow> x11_atoms \<Rightarrow> Atom \<Rightarrow> conversion list \<Rightarrow> x11_state
     \<Rightarrow> fault + (cstring option \<times> x11_state)" where
  "getSelectionString E A selection convs s =
     (if selection_owner s selection = helperWindowHandle s
      then Inr (if selection = PRIMARY A then primarySelectionString s else clipboardString s, s)
      else
        case convert_loop E A selection (helperWindowHandle s) [UTF8_STRING A, XA_STRING]
               convs [] of
          Inl f \<Rightarrow> Inl f
        | Inr (string, acts) \<Rightarrow>
            let s1 = (if selection = PRIMARY A then s\<lparr>primarySelectionString := string\<rparr>
                      else s\<lparr>clipboardString := string\<rparr>);
                s2 = emit acts s1;
                s3 = (if string = None
                      then emit [glfwInputError GLFW_FORMAT_UNAVAILABLE
                                   ''X11: Failed to convert selection to string''] s2
                      else s2)
            in Inr (string, s3))"

text \<open>
  \<^verbatim>\<open>XSetSelectionOwner\<close> asks the server for the selection; \<open>granted\<close> is whether the
  server's record names the helper window afterwards.
\<close>

definition glfwSetClipboardStringX11 :: "x11_atoms \<Rightarrow> cstring \<Rightarrow> bool \<Rightarrow> x11_state \<Rightarrow> x11_state" where
  "glfwSetClipboardStringX11 A string granted s =
     (let s1 = s\<lparr>clipboardString := Some string\<rparr>;
          s2 = emit [XSetSelectionOwner (CLIPBOARD A) (helperWindowHandle s1) CurrentTime]
                 (if granted
                  then s1\<lparr>selection_owner :=
                            (selection_owner s1)(CLIPBOARD A := helperWindowHandle s1)\<rparr>
                  else s1)
      in if selection_owner s2 (CLIPBOARD A) \<noteq> helperWindowHandle s2
         then emit [glfwInputError GLFW_PLATFORM_ERROR
                      ''X11: Failed to become owner of clipboard selection''] s2
         else s2)"

definition glfwGetClipboardStringX11 ::
  "x11_env \<Rightarrow> x11_atoms \<Rightarrow> conversion list \<Rightarrow> x11_state \<Rightarrow> fault + (cstring option \<times> x11_state)" where
  "glfwGetClipboardStringX11 E A convs s = getSelectionString E A (CLIPBOARD A) convs s"

text \<open>An 8-bit property chunk: its item count is its number of bytes.\<close>

definition chunk :: "byte list \<Rightarrow> property_read" where
  "chunk bytes = \<lparr> actualType = XA_STRING, itemCount = length bytes, data = bytes \<rparr>"

definition conversions_requested :: "action list \<Rightarrow> nat" where
  "conversions_requested acts =
     length (filter (\<lambda>a. case a of XConvertSelection sel t p w tm \<Rightarrow> True | _ \<Rightarrow> False) acts)"

definition latin1_decodings :: "action list \<Rightarrow> cstring list" where
  "latin1_decodings acts =
     concat (map (\<lambda>a. case a of convertLatin1toUTF8_of str \<Rightarrow> [str] | _ \<Rightarrow> []) acts)"

subsection \<open>Acquiring and releasing a monitor\<close>

text \<open>
  Modelled from the spec: \<^verbatim>\<open>_glfwInputMonitorWindow\<close> (monitor.c, not among the sources)
  records the window attached to the monitor, or that none is.
\<close>

definition glfwInputMonitorWindow :: "mptr \<Rightarrow> wptr option \<Rightarrow> x11_state \<Rightarrow> x11_state" where
  "glfwInputMonitorWindow m w s = s\<lparr>monitor_window := (monitor_window s)(m := w)\<rparr>"

definition acquireMonitor :: "wptr \<Rightarrow> x11_state \<Rightarrow> fault + x11_state" where
  "acquireMonitor window s =
     (case monitor (windows s window) of
        None \<Rightarrow> Inl NullPointer
      | Some m \<Rightarrow>
          let s1 = (if saver_count s = 0
                    then (case server_saver s of
                            (timeout, interval, blanking, exposure) \<Rightarrow>
                              emit [XGetScreenSaver,
                                    XSetScreenSaver 0 0 DontPreferBlanking DefaultExposures]
                                (s\<lparr>saver_timeout := timeout, saver_interval := interval,
                                   saver_blanking := blanking, saver_exposure := exposure,
                                   server_saver := (0, 0, DontPreferBlanking, DefaultExposures)\<rparr>))
                    else s);
              s2 = (if monitor_window s1 m = None
                    then s1\<lparr>saver_count := saver_count s1 + 1\<rparr> else s1);
              s3 = emit [glfwSetVideoModeX11 m window] s2;
              s4 = (if x11_overrideRedirect (windows s3 window)
                    then emit [XMoveResizeWindow_over_monitor (x11_handle (windows s3 window)) m] s3
                    else s3)
          in Inr (glfwInputMonitorWindow m (Some window) s4))"

definition releaseMonitor :: "wptr \<Rightarrow> x11_state \<Rightarrow> fault + x11_state" where
  "releaseMonitor window s =
     (case monitor (windows s window) of
        None \<Rightarrow> Inl NullPointer
      | Some m \<Rightarrow>
          if monitor_window s m \<noteq> Some window then Inr s
          else
            let s1 = glfwInputMonitorWindow m None s;
                s2 = emit [glfwRestoreVideoModeX11 m] s1;
                s3 = s2\<lparr>saver_count := saver_count s2 - 1\<rparr>
            in Inr (if saver_count s3 = 0
                    then emit [XSetScreenSaver (saver_timeout s3) (saver_interval s3)
                                 (saver_blanking s3) (saver_exposure s3)]
                           (s3\<lparr>server_saver := (saver_timeout s3, saver_interval s3,
                                                 saver_blanking s3, saver_exposure s3)\<rparr>)
                    else s3))"

text \<open>A sequence of calls, stopping at the first fault.\<close>

datatype monitor_call = Acquire wptr | Release wptr

fun run_monitor_calls :: "monitor_call list \<Rightarrow> x11_state \<Rightarrow> fault + x11_state" where
  "run_monitor_calls [] s = Inr s"
| "run_monitor_calls (Acquire w # cs) s =
     (case acquireMonitor w s of Inl f \<Rightarrow> Inl f | Inr s' \<Rightarrow> run_monitor_calls cs s')"
| "run_monitor_calls (Release w # cs) s =
     (case releaseMonitor w s of Inl f \<Rightarrow> Inl f | Inr s' \<Rightarrow> run_monitor_calls cs s')"

text \<open>
  The windows that hold their monitor, followed through a sequence of calls when every
  window has a monitor of its own: an acquisition makes the window a holder, a release
  ends that. A sequence has a single period of held monitors when no window acquires a
  monitor after the set of holders has become empty again: once the last holder has
  released, only releases follow.
\<close>

fun call_window :: "monitor_call \<Rightarrow> wptr" where
  "call_window (Acquire w) = w"
| "call_window (Release w) = w"

fun is_release :: "monitor_call \<Rightarrow> bool" where
  "is_release (Acquire w) = False"
| "is_release (Release w) = True"

fun holders_step :: "wptr set \<Rightarrow> monitor_call \<Rightarrow> wptr set" where
  "holders_step H (Acquire w) = insert w H"
| "holders_step H (Release w) = H - {w}"

definition holders_after :: "wptr set \<Rightarrow> monitor_call list \<Rightarrow> wptr set" where
  "holders_after H cs = foldl holders_step H cs"

fun single_period_from :: "wptr set \<Rightarrow> monitor_call list \<Rightarrow> bool" where
  "single_period_from H [] = True"
| "single_period_from H (c # cs) =
     (if H \<noteq> {} \<and> holders_step H c = {} then list_all is_release cs
      else single_period_from (holders_step H c) cs)"

definition single_period :: "monitor_call list \<Rightarrow> bool" where
  "single_period cs = single_period_from {} cs"

text \<open>
  The state agrees with a set \<open>H\<close> of holders among the windows \<open>W\<close>: the count is the
  number of holders, every window of \<open>W\<close> has a monitor, no two the same, and a
  monitor is attached to its window exactly when that window is a holder.
\<close>

definition holding :: "wptr set \<Rightarrow> x11_state \<Rightarrow> wptr set \<Rightarrow> bool" where
  "holding W s H \<longleftrightarrow>
     finite H \<and> H \<subseteq> W \<and> saver_count s = int (card H) \<and>
     inj_on (\<lambda>w. monitor (windows s w)) W \<and>
     (\<forall>w \<in> W. \<exists>m. monitor (windows s w) = Some m \<and>
                    monitor_window s m = (if w \<in> H then Some w else None))"

text \<open>
  Screen saver settings as a quadruple (timeout, interval, blanking, exposures): the
  settings remembered in \<^verbatim>\<open>_glfw.x11.saver\<close>, the settings that disable the screen
  saver, and the request that sets the server's.
\<close>

definition saved_settings :: "x11_state \<Rightarrow> int \<times> int \<times> int \<times> int" where
  "saved_settings s = (saver_timeout s, saver_interval s, saver_blanking s, saver_exposure s)"

definition disabled_settings :: "int \<times> int \<times> int \<times> int" where
  "disabled_settings = (0, 0, DontPreferBlanking, DefaultExposures)"

fun set_saver :: "int \<times> int \<times> int \<times> int \<Rightarrow> action" where
  "set_saver (timeout, interval, blanking, exposure) =
     XSetScreenSaver timeout interval blanking exposure"

definition saver_calls :: "action list \<Rightarrow> action list" where
  "saver_calls acts =
     filter (\<lambda>a. case a of XGetScreenSaver \<Rightarrow> True | XSetScreenSaver t i b e \<Rightarrow> True | _ \<Rightarrow> False)
       acts"


subsection \<open>Processing an event\<close>

text \<open>Values of \<^verbatim>\<open>X11/X.h\<close> and \<^verbatim>\<open>GLFW/glfw3.h\<close>.\<close>

definition ShiftMask :: int where "ShiftMask = 1"
definition LockMask :: int where "LockMask = 2"
definition ControlMask :: int where "ControlMask = 4"
definition Mod1Mask :: int where "Mod1Mask = 8"
definition Mod2Mask :: int where "Mod2Mask = 16"
definition Mod4Mask :: int where "Mod4Mask = 64"
definition GLFW_MOD_SHIFT :: int where "GLFW_MOD_SHIFT = 0x0001"
definition GLFW_MOD_CONTROL :: int where "GLFW_MOD_CONTROL = 0x0002"
definition GLFW_MOD_ALT :: int where "GLFW_MOD_ALT = 0x0004"
definition GLFW_MOD_SUPER :: int where "GLFW_MOD_SUPER = 0x0008"
definition GLFW_MOD_CAPS_LOCK :: int where "GLFW_MOD_CAPS_LOCK = 0x0010"
definition GLFW_MOD_NUM_LOCK :: int where "GLFW_MOD_NUM_LOCK = 0x0020"
definition GLFW_KEY_UNKNOWN :: int where "GLFW_KEY_UNKNOWN = - 1"
definition GLFW_INVALID_CODEPOINT :: "32 word" where "GLFW_INVALID_CODEPOINT = 0xffffffff"

definition translateState :: "int \<Rightarrow> int" where
  "translateState state =
     (if state AND ShiftMask \<noteq> 0 then GLFW_MOD_SHIFT else 0) OR
     (if state AND ControlMask \<noteq> 0 then GLFW_MOD_CONTROL else 0) OR
     (if state AND Mod1Mask \<noteq> 0 then GLFW_MOD_ALT else 0) OR
     (if state AND Mod4Mask \<noteq> 0 then GLFW_MOD_SUPER else 0) OR
     (if state AND LockMask \<noteq> 0 then GLFW_MOD_CAPS_LOCK else 0) OR
     (if state AND Mod2Mask \<noteq> 0 then GLFW_MOD_NUM_LOCK else 0)"

definition translateKey :: "x11_state \<Rightarrow> nat \<Rightarrow> int" where
  "translateKey s scancode = (if 255 < scancode then GLFW_KEY_UNKNOWN else keycodes s scancode)"

text \<open>
  \<^verbatim>\<open>decodeUTF8\<close> reads the byte at the cursor and every continuation byte after it; the
  buffer ends with a NUL, which is no continuation byte. More than six bytes index
  beyond \<^verbatim>\<open>offsets\<close>.
\<close>

definition offsets :: "32 word list" where
  "offsets = [0x00000000, 0x00003080, 0x000e2080, 0x03c82080, 0xfa082080, 0x82082080]"

definition continuation :: "byte \<Rightarrow> bool" where
  "continuation b \<longleftrightarrow> b AND 0xc0 = 0x80"

definition decodeUTF8 :: "byte \<Rightarrow> byte list \<Rightarrow> fault + (32 word \<times> byte list)" where
  "decodeUTF8 b bs =
     (let cont = takeWhile continuation bs;
          count = 1 + length cont;
          codepoint = foldl (\<lambda>cp x. push_bit 6 cp + ucast x) 0 (b # cont)
      in if 6 < count then Inl OutOfBounds
         else Inr (codepoint - offsets ! (count - 1), dropWhile continuation bs))"

text \<open>The loop \<^verbatim>\<open>while (c - chars < count)\<close> over the looked-up bytes.\<close>

function decode_chars :: "byte list \<Rightarrow> fault + 32 word list" where
  "decode_chars [] = Inr []"
| "decode_chars (b # bs) =
     (case decodeUTF8 b bs of
        Inl f \<Rightarrow> Inl f
      | Inr (codepoint, rest) \<Rightarrow>
          (case decode_chars rest of Inl f \<Rightarrow> Inl f | Inr cps \<Rightarrow> Inr (codepoint # cps)))"
  by pat_completeness auto
termination
  by (relation "measure length")
    (auto simp add: decodeUTF8_def Let_def less_Suc_eq_le length_dropWhile_le split: if_splits)

text \<open>
  The test on \<^verbatim>\<open>diff = event->xkey.time - window->x11.keyPressTimes[keycode]\<close> that
  lets a key press through.
\<close>

definition press_allowed :: "Time \<Rightarrow> Time \<Rightarrow> bool" where
  "press_allowed time stored =
     (let diff = time - stored in diff = time \<or> (0 < diff \<and> diff < push_bit 31 1))"

text \<open>
  The timestamps of the X server are 32-bit values of a millisecond clock that wraps
  around. \<open>wrapped_within d earlier later\<close>: the clock wrapped between the two
  timestamps, and \<open>later\<close> is less than \<open>d\<close> milliseconds after \<open>earlier\<close>.
\<close>

definition timestamp32 :: "Time \<Rightarrow> bool" where
  "timestamp32 t \<longleftrightarrow> unat t < 2 ^ 32"

definition wrapped_within :: "nat \<Rightarrow> Time \<Rightarrow> Time \<Rightarrow> bool" where
  "wrapped_within d earlier later \<longleftrightarrow>
     unat later < unat earlier \<and> unat later + 2 ^ 32 - unat earlier < d"

text \<open>
  The comparison in words: no press of the key was recorded yet (the stored timestamp
  is zero), or the difference of the two timestamps on the 32-bit clock is not zero
  and below \<open>2 ^ 31\<close>.
\<close>

definition press_accepted :: "Time \<Rightarrow> Time \<Rightarrow> bool" where
  "press_accepted stored time \<longleftrightarrow>
     stored = 0 \<or>
     ((unat time + 2 ^ 32 - unat stored) mod 2 ^ 32 \<noteq> 0 \<and>
      (unat time + 2 ^ 32 - unat stored) mod 2 ^ 32 < 2 ^ 31)"

text \<open>
  The KeyPress case. \<open>ev\<close> carries the key code saved before \<^verbatim>\<open>XFilterEvent\<close>;
  \<open>filtered\<close> is what \<^verbatim>\<open>XFilterEvent\<close> returned. The table \<^verbatim>\<open>keyPressTimes\<close> has 256
  entries. \<open>Xutf8LookupString E ev\<close> is the status and the bytes of the last lookup, the
  one into the larger buffer after \<^verbatim>\<open>XBufferOverflow\<close>.
\<close>

definition onKeyPress :: "x11_env \<Rightarrow> XKeyEvent \<Rightarrow> bool \<Rightarrow> wptr \<Rightarrow> x11_state \<Rightarrow> fault + x11_state" where
  "onKeyPress E ev filtered window s =
     (let keycode = k_keycode ev;
          key = translateKey s keycode;
          mods = translateState (k_state ev);
          plain = (mods AND (GLFW_MOD_CONTROL OR GLFW_MOD_ALT) = 0);
          w = windows s window
      in case x11_ic w of
           Some ic \<Rightarrow>
             if 255 < keycode then Inl OutOfBounds
             else
               let s1 = (if press_allowed (k_time ev) (x11_keyPressTimes w keycode)
                         then (let s' = (if keycode \<noteq> 0
                                         then emit [glfwInputKey window key keycode GLFW_PRESS mods] s
                                         else s)
                               in s'\<lparr>windows := (windows s')
                                      (window := w\<lparr>x11_keyPressTimes :=
                                         (x11_keyPressTimes w)(keycode := k_time ev)\<rparr>)\<rparr>)
                         else s)
               in if \<not> filtered
                  then (case Xutf8LookupString E ev of
                          (status, chars) \<Rightarrow>
                            if status = XLookupChars \<or> status = XLookupBoth
                            then (case decode_chars chars of
                                    Inl f \<Rightarrow> Inl f
                                  | Inr cps \<Rightarrow>
                                      Inr (emit (map (\<lambda>cp. glfwInputChar window cp mods plain) cps) s1))
                            else Inr s1)
                  else Inr s1
         | None \<Rightarrow>
             let keysym = XLookupString_keysym E ev;
                 s1 = emit [glfwInputKey window key keycode GLFW_PRESS mods] s;
                 codepoint = glfwKeySym2Unicode E keysym
             in Inr (if codepoint \<noteq> GLFW_INVALID_CODEPOINT
                     then emit [glfwInputChar window codepoint mods plain] s1
                     else s1))"

text \<open>
  The KeyRelease case. \<open>queue\<close> holds the events queued after reading, the next one
  first; an event of a kind not followed here is \<open>None\<close>.
\<close>

definition repeat_follows :: "XKeyEvent \<Rightarrow> XEvent option list \<Rightarrow> bool" where
  "repeat_follows ev queue =
     (case queue of
        [] \<Rightarrow> False
      | next # rest \<Rightarrow>
          (case next of
             Some (KeyPress nk) \<Rightarrow>
               k_window nk = k_window ev \<and> k_keycode nk = k_keycode ev \<and>
               k_time nk - k_time ev < 20
           | _ \<Rightarrow> False))"

text \<open>The key press at the head of the queue, if the next event is one.\<close>

definition next_press :: "XEvent option list \<Rightarrow> XKeyEvent option" where
  "next_press queue =
     (case queue of
        [] \<Rightarrow> None
      | next # rest \<Rightarrow> (case next of Some (KeyPress nk) \<Rightarrow> Some nk | _ \<Rightarrow> None))"

text \<open>
  The press that makes a release a repeat, in words: it is for the same window and key
  code, and its timestamp is the release's or less than 20 milliseconds later.
\<close>

definition repeats :: "XKeyEvent \<Rightarrow> XKeyEvent \<Rightarrow> bool" where
  "repeats ev nk \<longleftrightarrow>
     k_window nk = k_window ev \<and> k_keycode nk = k_keycode ev \<and>
     unat (k_time ev) \<le> unat (k_time nk) \<and> unat (k_time nk) - unat (k_time ev) < 20"

definition onKeyRelease :: "XKeyEvent \<Rightarrow> XEvent option list \<Rightarrow> wptr \<Rightarrow> x11_state \<Rightarrow> x11_state" where
  "onKeyRelease ev queue window s =
     (let keycode = k_keycode ev;
          key = translateKey s keycode;
          mods = translateState (k_state ev)
      in if \<not> xkb_detectable s \<and> repeat_follows ev queue then s
         else emit [glfwInputKey window key keycode GLFW_RELEASE mods] s)"

text \<open>
  The ClientMessage case. \<^verbatim>\<open>data.l[1] >> 24\<close> is an arithmetic shift of a \<^verbatim>\<open>long\<close>, stored
  into the \<^verbatim>\<open>int\<close> field \<^verbatim>\<open>xdnd.version\<close>.
\<close>

definition xdnd_enter_formats :: "x11_env \<Rightarrow> x11_atoms \<Rightarrow> XClientMessageEvent \<Rightarrow> Atom list" where
  "xdnd_enter_formats E A ev =
     (if c_l1 ev AND 1 \<noteq> 0
      then (case getWindowProperty E (c_l0 ev) (XdndTypeList A) XA_ATOM of
              (count, formats) \<Rightarrow> map formats [0..<count])
      else [c_l2 ev, c_l3 ev, c_l4 ev])"

definition onClientMessage ::
  "x11_env \<Rightarrow> x11_atoms \<Rightarrow> XClientMessageEvent \<Rightarrow> bool \<Rightarrow> wptr \<Rightarrow> x11_state \<Rightarrow> x11_state" where
  "onClientMessage E A ev filtered window s =
     (if filtered then s
      else if c_message_type ev = X_None then s
      else if c_message_type ev = WM_PROTOCOLS A
      then (let protocol = c_l0 ev
            in if protocol = X_None then s
               else if protocol = WM_DELETE_WINDOW A
               then emit [glfwInputWindowCloseRequest window] s
               else if protocol = NET_WM_PING A
               then emit [XSendEvent (root s) (SubstructureNotifyMask OR SubstructureRedirectMask)
                            (ClientMessageReply (ev\<lparr>c_window := root s\<rparr>))] s
               else s)
      else if c_message_type ev = XdndEnter A
      then (let s1 = s\<lparr>xdnd_source := c_l0 ev,
                       xdnd_version := ucast (signed_drop_bit 24 (c_l1 ev)),
                       xdnd_format := X_None\<rparr>
            in if GLFW_XDND_VERSION < sint (xdnd_version s1) then s1
               else if text_uri_list A \<in> set (xdnd_enter_formats E A ev)
               then s1\<lparr>xdnd_format := text_uri_list A\<rparr>
               else s1)
      else if c_message_type ev = XdndDrop A
      then (if GLFW_XDND_VERSION < sint (xdnd_version s) then s
            else if xdnd_format s \<noteq> X_None
            then emit [XConvertSelection (XdndSelection A) (xdnd_format s) (XdndSelection A)
                         (x11_handle (windows s window))
                         (if 1 \<le> sint (xdnd_version s) then c_l2 ev else CurrentTime)] s
            else if 2 \<le> sint (xdnd_version s)
            then emit [XSendEvent (xdnd_source s) NoEventMask
                         (ClientMessageReply
                            \<lparr> c_window = xdnd_source s, c_message_type = XdndFinished A,
                              c_format = 32, c_l0 = x11_handle (windows s window),
                              c_l1 = 0, c_l2 = X_None, c_l3 = 0, c_l4 = 0 \<rparr>),
                       XFlush] s
            else s)
      else if c_message_type ev = XdndPosition A
      then (let xabs = uint (drop_bit 16 (c_l2 ev) AND 0xffff);
                yabs = uint (c_l2 ev AND 0xffff)
            in if GLFW_XDND_VERSION < sint (xdnd_version s) then s
               else
                 (case XTranslateCoordinates E (root s) (x11_handle (windows s window)) xabs yabs of
                    (xpos, ypos) \<Rightarrow>
                      emit [glfwInputCursorPos window xpos ypos,
                            XSendEvent (xdnd_source s) NoEventMask
                              (ClientMessageReply
                                 \<lparr> c_window = xdnd_source s, c_message_type = XdndStatus A,
                                   c_format = 32, c_l0 = x11_handle (windows s window),
                                   c_l1 = (if xdnd_format s \<noteq> X_None then 1 else 0),
                                   c_l2 = 0, c_l3 = 0,
                                   c_l4 = (if xdnd_format s \<noteq> X_None \<and> 2 \<le> sint (xdnd_version s)
                                           then XdndActionCopy A else 0) \<rparr>),
                            XFlush] s))
      else s)"

text \<open>
  \<^verbatim>\<open>processEvent\<close> for the four kinds of event followed here. None of them carries an
  extension's event code or is a GenericEvent, so the tests before the selection request
  test fall through. A selection request is served before the window is looked up; for
  the others \<^verbatim>\<open>XFindContext\<close> must find the window of the event, or the event is dropped.
\<close>

definition processEvent ::
  "x11_env \<Rightarrow> x11_atoms \<Rightarrow> XEvent \<Rightarrow> bool \<Rightarrow> XEvent option list \<Rightarrow> x11_state
     \<Rightarrow> fault + x11_state" where
  "processEvent E A event filtered queue s =
     (case event of
        SelectionRequest request \<Rightarrow> handleSelectionRequest A (getWindowProperty E) s request
      | KeyPress ev \<Rightarrow>
          (case context_table s (k_window ev) of
             None \<Rightarrow> Inr s
           | Some window \<Rightarrow> onKeyPress E ev filtered window s)
      | KeyRelease ev \<Rightarrow>
          (case context_table s (k_window ev) of
             None \<Rightarrow> Inr s
           | Some window \<Rightarrow> Inr (onKeyRelease ev queue window s))
      | ClientMessage ev \<Rightarrow>
          (case context_table s (c_window ev) of
             None \<Rightarrow> Inr s
           | Some window \<Rightarrow> Inr (onClientMessage E A ev filtered window s)))"

definition key_events :: "key_action \<Rightarrow> action list \<Rightarrow> action list" where
  "key_events act acts =
     filter (\<lambda>a. case a of glfwInputKey w key sc act' mods \<Rightarrow> act' = act | _ \<Rightarrow> False) acts"

text \<open>The protocol version an XdndEnter message announces, as the code reads it.\<close>

definition announced_version :: "XClientMessageEvent \<Rightarrow> int" where
  "announced_version ev = sint (ucast (signed_drop_bit 24 (c_l1 ev)) :: 32 word)"

subsection \<open>A session to run the model on\<close>

text \<open>
  An atom table with distinct atoms, an environment with a UTF-8 encoder and an input
  method that composes no text, and the state of a session with two windows, each on its own monitor and with an input
  context, before any of the calls above was made.
\<close>

definition session_atoms :: x11_atoms where
  "session_atoms =
     \<lparr> TARGETS = 300, MULTIPLE = 301, INCR = 302, CLIPBOARD = 303, PRIMARY = 1,
       SAVE_TARGETS = 304, NULL_atom = 305, UTF8_STRING = 306, ATOM_PAIR = 307,
       GLFW_SELECTION = 308, WM_PROTOCOLS = 309, WM_DELETE_WINDOW = 310, NET_WM_PING = 311,
       XdndEnter = 312, XdndPosition = 313, XdndStatus = 314, XdndActionCopy = 315,
       XdndDrop = 316, XdndFinished = 317, XdndSelection = 318, XdndTypeList = 319,
       text_uri_list = 320 \<rparr>"

definition session_env :: x11_env where
  "session_env =
     \<lparr> char_is_signed = False,
       glfwEncodeUTF8 =
         (\<lambda>cp. if cp < 0x80 then [ucast cp]
               else if cp < 0x800
               then [ucast (drop_bit 6 cp) OR 0xc0, ucast (cp AND 0x3f) OR 0x80]
               else if cp < 0x10000
               then [ucast (drop_bit 12 cp) OR 0xe0, ucast (drop_bit 6 cp AND 0x3f) OR 0x80,
                     ucast (cp AND 0x3f) OR 0x80]
               else if cp < 0x110000
               then [ucast (drop_bit 18 cp) OR 0xf0, ucast (drop_bit 12 cp AND 0x3f) OR 0x80,
                     ucast (drop_bit 6 cp AND 0x3f) OR 0x80, ucast (cp AND 0x3f) OR 0x80]
               else []),
       glfwKeySym2Unicode = (\<lambda>keysym. 0xffffffff),
       getWindowProperty = (\<lambda>w p t. (0, \<lambda>i. 0)),
       Xutf8LookupString = (\<lambda>ev. (XLookupNone, [])),
       XLookupString_keysym = (\<lambda>ev. 0),
       XTranslateCoordinates = (\<lambda>src dst x y. (x, y)) \<rparr>"

definition session_window :: "wptr \<Rightarrow> GLFWwindow" where
  "session_window w =
     \<lparr> x11_handle = 0x400000 + word_of_nat w, monitor = Some (10 + w),
       x11_overrideRedirect = False, x11_ic = Some 1, x11_keyPressTimes = (\<lambda>keycode. 0) \<rparr>"

definition session_state :: x11_state where
  "session_state =
     \<lparr> helperWindowHandle = 0x200001, root = 0x1e0,
       clipboardString = None, primarySelectionString = None,
       saver_count = 0, saver_timeout = 0, saver_interval = 0, saver_blanking = 0,
       saver_exposure = 0,
       xdnd_source = 0, xdnd_version = 0, xdnd_format = 0,
       xkb_detectable = False, keycodes = (\<lambda>scancode. int scancode),
       windows = session_window,
       context_table = (\<lambda>h. if h = 0x400001 then Some 1 else if h = 0x400002 then Some 2 else None),
       monitor_window = (\<lambda>m. None),
       selection_owner = (\<lambda>a. 0),
       server_saver = (600, 600, 1, 1),
       trace = [] \<rparr>"

section \<open>Results\<close>

subsection \<open>Module loader installation\<close>

lemma init_complete:
  "complete_triplet l \<Longrightarrow> glfwInitModuleLoader (Some l) s = s\<lparr>glfwModuleLoader := l\<rparr>"
  by (simp add: glfwInitModuleLoader_def complete_triplet_def)

lemma init_partial:
  "\<not> complete_triplet l \<Longrightarrow>
     glfwInitModuleLoader (Some l) s =
       s\<lparr>loader_errors := loader_errors s @
            [(GLFW_INVALID_VALUE, ''Missing function in module loader'')]\<rparr>"
  by (auto simp add: glfwInitModuleLoader_def complete_triplet_def)

lemma init_null_dispatch:
  "glfwModuleLoaderOpen (glfwInitModuleLoader None s) path = PlatformLoadModule path"
  "glfwModuleLoaderClose (glfwInitModuleLoader None s) m = PlatformFreeModule m"
  "glfwModuleLoaderResolve (glfwInitModuleLoader None s) m name = PlatformGetModuleSymbol m name"
  by (simp_all add: glfwInitModuleLoader_def glfwModuleLoaderOpen_def
      glfwModuleLoaderClose_def glfwModuleLoaderResolve_def zeroed_loader_def)

text \<open>
  Claim C9. Installing a complete triplet replaces the installed loader (and reports
  nothing); installing a null loader zeroes it, so that all three dispatchers use the
  platform loader again; installing a triplet with a missing function reports
  \<open>GLFW_INVALID_VALUE\<close> once and leaves the installed loader as it was.
\<close>

theorem glfwInitModuleLoader_spec:
  "(complete_triplet l \<longrightarrow>
      glfwModuleLoader (glfwInitModuleLoader (Some l) s) = l \<and>
      loader_errors (glfwInitModuleLoader (Some l) s) = loader_errors s) \<and>
   (glfwModuleLoader (glfwInitModuleLoader None s) = zeroed_loader \<and>
    loader_errors (glfwInitModuleLoader None s) = loader_errors s \<and>
    glfwModuleLoaderOpen (glfwInitModuleLoader None s) path = PlatformLoadModule path \<and>
    glfwModuleLoaderClose (glfwInitModuleLoader None s) m = PlatformFreeModule m \<and>
    glfwModuleLoaderResolve (glfwInitModuleLoader None s) m name =
      PlatformGetModuleSymbol m name) \<and>
   (\<not> complete_triplet l \<longrightarrow>
      glfwModuleLoader (glfwInitModuleLoader (Some l) s) = glfwModuleLoader s \<and>
      loader_errors (glfwInitModuleLoader (Some l) s) =
        loader_errors s @ [(GLFW_INVALID_VALUE, ''Missing function in module loader'')])"
  by (simp add: init_complete init_partial init_null_dispatch)
    (simp add: glfwInitModuleLoader_def)

theorem glfwInitModuleLoader_spec_witness:
  "complete_triplet \<lparr> l_open = Some 1, l_close = Some 2, l_resolve = Some 3, l_user = None \<rparr> \<and>
   \<not> complete_triplet \<lparr> l_open = Some 1, l_close = None, l_resolve = Some 3, l_user = Some 9 \<rparr> \<and>
   glfwModuleLoader (glfwInitModuleLoader
      (Some \<lparr> l_open = Some 1, l_close = Some 2, l_resolve = Some 3, l_user = None \<rparr>)
      \<lparr> glfwModuleLoader = zeroed_loader, loader_errors = [] \<rparr>)
     = \<lparr> l_open = Some 1, l_close = Some 2, l_resolve = Some 3, l_user = None \<rparr> \<and>
   glfwInitModuleLoader
      (Some \<lparr> l_open = Some 1, l_close = None, l_resolve = Some 3, l_user = Some 9 \<rparr>)
      \<lparr> glfwModuleLoader = \<lparr> l_open = Some 4, l_close = Some 5, l_resolve = Some 6, l_user = None \<rparr>,
        loader_errors = [] \<rparr>
     = \<lparr> glfwModuleLoader = \<lparr> l_open = Some 4, l_close = Some 5, l_resolve = Some 6, l_user = None \<rparr>,
         loader_errors = [(GLFW_INVALID_VALUE, ''Missing function in module loader'')] \<rparr>"
  using glfwInitModuleLoader_spec
    [of "\<lparr> l_open = Some 1, l_close = Some 2, l_resolve = Some 3, l_user = None \<rparr>"
        "\<lparr> glfwModuleLoader = zeroed_loader, loader_errors = [] \<rparr>" "''x''" 0 "''y''"]
    glfwInitModuleLoader_spec
    [of "\<lparr> l_open = Some 1, l_close = None, l_resolve = Some 3, l_user = Some 9 \<rparr>"
        "\<lparr> glfwModuleLoader = \<lparr> l_open = Some 4, l_close = Some 5, l_resolve = Some 6, l_user = None \<rparr>,
           loader_errors = [] \<rparr>" "''x''" 0 "''y''"]
  by (simp add: complete_triplet_def)

subsection \<open>Destroying an EGL context\<close>

text \<open>
  Claim C8. When the native connection still needs the client library (the X11 display
  with a desktop OpenGL context), destroying the context never frees the library and
  keeps its handle; conversely the library is freed only when the connection does not
  need it, and then it is the window's own library that is freed.
\<close>

theorem destroyContextEGL_client_library:
  "(connection_needs_client_library pid window \<longrightarrow>
      (\<forall>m. glfwPlatformFreeModule m \<notin> set (snd (destroyContextEGL pid window))) \<and>
      egl_client (context_egl (fst (destroyContextEGL pid window))) =
        egl_client (context_egl window)) \<and>
   (glfwPlatformFreeModule m \<in> set (snd (destroyContextEGL pid window)) \<longrightarrow>
      \<not> connection_needs_client_library pid window \<and>
      egl_client (context_egl window) = Some m)"
  by (auto simp add: destroyContextEGL_def connection_needs_client_library_def Let_def
      split: option.splits if_splits)

theorem destroyContextEGL_client_library_witness:
  "connection_needs_client_library GLFW_PLATFORM_X11
     \<lparr> context_client = GLFW_OPENGL_API,
       context_egl = \<lparr> egl_client = Some 7, egl_surface = Some 8, egl_handle = Some 9 \<rparr> \<rparr> \<and>
   destroyContextEGL GLFW_PLATFORM_X11
     \<lparr> context_client = GLFW_OPENGL_API,
       context_egl = \<lparr> egl_client = Some 7, egl_surface = Some 8, egl_handle = Some 9 \<rparr> \<rparr>
   = (\<lparr> context_client = GLFW_OPENGL_API,
        context_egl = \<lparr> egl_client = Some 7, egl_surface = None, egl_handle = None \<rparr> \<rparr>,
      [eglDestroySurface 8, eglDestroyContext 9]) \<and>
   glfwPlatformFreeModule 7 \<in> set (snd (destroyContextEGL GLFW_PLATFORM_X11
     \<lparr> context_client = GLFW_OPENGL_ES_API,
       context_egl = \<lparr> egl_client = Some 7, egl_surface = Some 8, egl_handle = Some 9 \<rparr> \<rparr>)) \<and>
   \<not> connection_needs_client_library GLFW_PLATFORM_X11
     \<lparr> context_client = GLFW_OPENGL_ES_API,
       context_egl = \<lparr> egl_client = Some 7, egl_surface = Some 8, egl_handle = Some 9 \<rparr> \<rparr>"
  using destroyContextEGL_client_library
    [of GLFW_PLATFORM_X11
        "\<lparr> context_client = GLFW_OPENGL_API,
           context_egl = \<lparr> egl_client = Some 7, egl_surface = Some 8, egl_handle = Some 9 \<rparr> \<rparr>" 7]
    destroyContextEGL_client_library
    [of GLFW_PLATFORM_X11
        "\<lparr> context_client = GLFW_OPENGL_ES_API,
           context_egl = \<lparr> egl_client = Some 7, egl_surface = Some 8, egl_handle = Some 9 \<rparr> \<rparr>" 7]
  by (simp add: destroyContextEGL_def connection_needs_client_library_def)

subsection \<open>The clipboard round trip\<close>

text \<open>
  Claim C5. The clipboard string is set to \<open>string\<close>. Later, in any state whose cached
  clipboard string is still the one stored by that call and in which the server names
  the helper window as owner of CLIPBOARD, reading the clipboard returns exactly
  \<open>string\<close> and leaves the state as it was: nothing is added to the calls made, so no
  \<^verbatim>\<open>XConvertSelection\<close> is issued, whatever the server would have answered to one.
\<close>

theorem clipboard_round_trip:
  assumes "CLIPBOARD A \<noteq> PRIMARY A"
    and "clipboardString s' = clipboardString (glfwSetClipboardStringX11 A string granted s)"
    and "selection_owner s' (CLIPBOARD A) = helperWindowHandle s'"
  shows "glfwGetClipboardStringX11 E A convs s' = Inr (Some string, s')"
proof -
  have "clipboardString (glfwSetClipboardStringX11 A string granted s) = Some string"
    by (simp add: glfwSetClipboardStringX11_def Let_def emit_def)
  with assms show ?thesis
    by (simp add: glfwGetClipboardStringX11_def getSelectionString_def)
qed

theorem clipboard_round_trip_witness:
  "CLIPBOARD session_atoms \<noteq> PRIMARY session_atoms \<and>
   selection_owner (glfwSetClipboardStringX11 session_atoms [0x68, 0x69] True session_state)
     (CLIPBOARD session_atoms)
     = helperWindowHandle (glfwSetClipboardStringX11 session_atoms [0x68, 0x69] True session_state) \<and>
   glfwGetClipboardStringX11 session_env session_atoms []
     (glfwSetClipboardStringX11 session_atoms [0x68, 0x69] True session_state)
     = Inr (Some [0x68, 0x69],
            glfwSetClipboardStringX11 session_atoms [0x68, 0x69] True session_state)"
proof -
  have a: "CLIPBOARD session_atoms \<noteq> PRIMARY session_atoms" by (simp add: session_atoms_def)
  have o: "selection_owner (glfwSetClipboardStringX11 session_atoms [0x68, 0x69] True session_state)
     (CLIPBOARD session_atoms)
     = helperWindowHandle (glfwSetClipboardStringX11 session_atoms [0x68, 0x69] True session_state)"
    by (simp add: glfwSetClipboardStringX11_def Let_def emit_def)
  from clipboard_round_trip [OF a refl o] a o show ?thesis by simp
qed

subsection \<open>Incremental selection transfers\<close>

lemma cstr_no_nul: "0 \<notin> set c \<Longrightarrow> cstr c = c"
  by (auto simp add: cstr_def)

lemma incr_loop_chunks:
  assumes "\<forall>c \<in> set chunks. c \<noteq> [] \<and> 0 \<notin> set c"
    and "bufsize = length acc + 1"
    and "string = None \<and> acc = [] \<or> string = Some acc"
  shows "incr_loop w p (map chunk chunks @ chunk [] # later) bufsize string acts =
           Inr (if chunks = [] then string else Some (acc @ concat chunks),
                acts @ replicate (length chunks + 1) (XGetWindowProperty_delete w p))"
  using assms
proof (induction chunks arbitrary: bufsize acc string acts)
  case Nil
  then show ?case by (simp add: chunk_def)
next
  case (Cons c chunks)
  from Cons.prems(1) have c: "c \<noteq> []" "cstr c = c"
    by (simp_all add: cstr_no_nul)
  from Cons.prems(1) have rest: "\<forall>c \<in> set chunks. c \<noteq> [] \<and> 0 \<notin> set c" by simp
  from Cons.prems(3) have acc: "(case string of None \<Rightarrow> [] | Some a \<Rightarrow> a) = acc" by auto
  have step: "incr_loop w p (map chunk (c # chunks) @ chunk [] # later) bufsize string acts =
        incr_loop w p (map chunk chunks @ chunk [] # later) (bufsize + length c)
          (Some (acc @ c)) (acts @ [XGetWindowProperty_delete w p])"
    using c acc Cons.prems(2) by (simp add: chunk_def Let_def)
  have ih: "incr_loop w p (map chunk chunks @ chunk [] # later) (bufsize + length c)
          (Some (acc @ c)) (acts @ [XGetWindowProperty_delete w p]) =
           Inr (if chunks = [] then Some (acc @ c) else Some ((acc @ c) @ concat chunks),
                (acts @ [XGetWindowProperty_delete w p]) @
                replicate (length chunks + 1) (XGetWindowProperty_delete w p))"
    by (rule Cons.IH [OF rest]) (use Cons.prems(2) in simp_all)
  show ?case
    unfolding step ih by (simp add: replicate_app_Cons_same)
qed

lemma conversions_requested_simps:
  "conversions_requested [] = 0"
  "conversions_requested (xs @ ys) = conversions_requested xs + conversions_requested ys"
  "conversions_requested (XConvertSelection sel t p w tm # xs) = Suc (conversions_requested xs)"
  "conversions_requested (XGetWindowProperty_delete w p # xs) = conversions_requested xs"
  "conversions_requested (replicate n (XGetWindowProperty_delete w p)) = 0"
  by (simp_all add: conversions_requested_def)

lemma latin1_decodings_simps:
  "latin1_decodings [] = []"
  "latin1_decodings (xs @ ys) = latin1_decodings xs @ latin1_decodings ys"
  "latin1_decodings (XConvertSelection sel t p w tm # xs) = latin1_decodings xs"
  "latin1_decodings (XGetWindowProperty_delete w p # xs) = latin1_decodings xs"
  "latin1_decodings (convertLatin1toUTF8_of str # xs) = str # latin1_decodings xs"
  "latin1_decodings (replicate n (XGetWindowProperty_delete w p)) = []"
  by (simp_all add: latin1_decodings_def)

text \<open>
  Claim C2, as amended. The answer to the conversion request for target \<open>t\<close> is an INCR
  transfer of one or more non-empty 8-bit chunks without NUL bytes, followed by an empty
  chunk. Then exactly one conversion was requested and the selection string is the
  concatenation of the chunks in arrival order. When \<open>t\<close> is STRING, the Latin-1 decoder
  is called once, after the last read, on that whole concatenation, and its result is
  the selection string; no chunk is decoded on its own. For any other target no decoder
  is called.
\<close>

theorem incr_transfer_reconstruction:
  assumes "chunks \<noteq> []"
    and "\<forall>c \<in> set chunks. c \<noteq> [] \<and> 0 \<notin> set c"
    and "notification_property c \<noteq> X_None"
    and "actualType (first_read c) = INCR A"
    and "incr_reads c = map chunk chunks @ [chunk []]"
  shows "\<exists>reads.
     conversions_requested reads = 1 \<and> latin1_decodings reads = [] \<and>
     convert_loop E A selection helper (t # ts) (c # cs) acts =
       (if t = XA_STRING
        then (case convertLatin1toUTF8 E (concat chunks) of
                Inl f \<Rightarrow> Inl f
              | Inr utf8 \<Rightarrow>
                  Inr (Some utf8, acts @ reads @ [convertLatin1toUTF8_of (concat chunks)]))
        else Inr (Some (concat chunks), acts @ reads))"
proof -
  let ?w = "notification_requestor c" and ?p = "notification_property c"
  let ?reads = "[XConvertSelection selection t (GLFW_SELECTION A) helper CurrentTime,
                 XGetWindowProperty_delete ?w ?p] @
                replicate (length chunks + 1) (XGetWindowProperty_delete ?w ?p)"
  have loop: "incr_loop ?w ?p (incr_reads c) 1 None
                (acts @ [XConvertSelection selection t (GLFW_SELECTION A) helper CurrentTime,
                 XGetWindowProperty_delete ?w ?p]) =
              Inr (Some (concat chunks), acts @ ?reads)"
    using incr_loop_chunks [OF assms(2), of 1 "[]" None ?w ?p "[]"
        "acts @ [XConvertSelection selection t (GLFW_SELECTION A) helper CurrentTime,
                 XGetWindowProperty_delete ?w ?p]"] assms(1,5)
    by simp
  have c1: "conversions_requested ?reads = 1"
    by (simp add: conversions_requested_simps del: replicate.simps)
  have c2: "latin1_decodings ?reads = []"
    by (simp add: latin1_decodings_simps del: replicate.simps)
  have c3: "convert_loop E A selection helper (t # ts) (c # cs) acts =
       (if t = XA_STRING
        then (case convertLatin1toUTF8 E (concat chunks) of
                Inl f \<Rightarrow> Inl f
              | Inr utf8 \<Rightarrow>
                  Inr (Some utf8, acts @ ?reads @ [convertLatin1toUTF8_of (concat chunks)]))
        else Inr (Some (concat chunks), acts @ ?reads))"
    using assms(3,4) loop by (simp add: Let_def split: sum.splits)
  from c1 c2 c3 show ?thesis by blast
qed

theorem incr_transfer_reconstruction_witness:
  "[[0x68], [0xe9 :: byte]] \<noteq> [] \<and>
   [0x68 :: byte] \<noteq> [] \<and> 0 \<notin> set [0x68 :: byte] \<and>
   [0xe9 :: byte] \<noteq> [] \<and> 0 \<notin> set [0xe9 :: byte] \<and>
   (\<exists>reads.
      conversions_requested reads = 1 \<and> latin1_decodings reads = [] \<and>
      convert_loop session_env session_atoms 303 0x200001 [XA_STRING]
        [\<lparr> notification_requestor = 0x200001, notification_property = 308,
           first_read = \<lparr> actualType = 302, itemCount = 1, data = [2] \<rparr>,
           incr_reads = map chunk [[0x68], [0xe9]] @ [chunk []] \<rparr>] []
      = Inr (Some [0x68, 0xc3, 0xa9], reads @ [convertLatin1toUTF8_of [0x68, 0xe9]]))"
proof -
  have u: "convertLatin1toUTF8 session_env [0x68, 0xe9] = Inr [0x68, 0xc3, 0xa9]"
    by (simp add: convertLatin1toUTF8_def session_env_def char_to_uint32_def cstr_def Let_def)
  have h: "\<forall>c \<in> set [[0x68], [0xe9 :: byte]]. c \<noteq> [] \<and> 0 \<notin> set c" by simp
  show ?thesis
    using incr_transfer_reconstruction
      [where chunks = "[[0x68], [0xe9]]" and A = session_atoms and E = session_env
         and c = "\<lparr> notification_requestor = 0x200001, notification_property = 308,
           first_read = \<lparr> actualType = 302, itemCount = 1, data = [2] \<rparr>,
           incr_reads = map chunk [[0x68], [0xe9]] @ [chunk []] \<rparr>"
         and t = XA_STRING and ts = "[]" and cs = "[]" and acts = "[]"
         and selection = 303 and helper = "0x200001"]
      u h
    by (simp add: session_atoms_def X_None_def)
qed

text \<open>
  The claim as first stated admits every non-empty chunk. A chunk with a NUL byte is
  appended by \<^verbatim>\<open>strcat\<close> only up to that byte: the three-byte chunk \<open>A\<close>, NUL, \<open>B\<close>
  reconstructs to the one-byte string \<open>A\<close>. A transfer of no chunk at all reconstructs
  to no string, not to the empty one.
\<close>

theorem incr_transfer_nul_counterexample:
  "map_sum id fst (convert_loop session_env session_atoms 303 0x200001 [306, 31]
     [\<lparr> notification_requestor = 0x200001, notification_property = 308,
        first_read = \<lparr> actualType = 302, itemCount = 1, data = [3] \<rparr>,
        incr_reads = [chunk [0x41, 0, 0x42], chunk []] \<rparr>] [])
   = Inr (Some [0x41]) \<and>
   concat [[0x41, 0, 0x42]] \<noteq> [0x41 :: byte] \<and>
   map_sum id fst (convert_loop session_env session_atoms 303 0x200001 [306]
     [\<lparr> notification_requestor = 0x200001, notification_property = 308,
        first_read = \<lparr> actualType = 302, itemCount = 1, data = [3] \<rparr>,
        incr_reads = [chunk []] \<rparr>] [])
   = Inr None"
  by (simp add: session_atoms_def chunk_def cstr_def Let_def X_None_def XA_STRING_def)

subsection \<open>Drag and drop without a supported format\<close>

lemma xdnd_enter_result:
  assumes "XdndEnter A \<noteq> X_None" "XdndEnter A \<noteq> WM_PROTOCOLS A"
    and "c_message_type enter = XdndEnter A"
    and "text_uri_list A \<notin> set (xdnd_enter_formats E A enter)"
  shows "onClientMessage E A enter False window s =
           s\<lparr>xdnd_source := c_l0 enter,
             xdnd_version := ucast (signed_drop_bit 24 (c_l1 enter)),
             xdnd_format := X_None\<rparr>"
  using assms by (simp add: onClientMessage_def Let_def)

lemma xdnd_drop_result:
  assumes "XdndDrop A \<noteq> X_None" "XdndDrop A \<noteq> WM_PROTOCOLS A" "XdndDrop A \<noteq> XdndEnter A"
    and "c_message_type dropped = XdndDrop A"
    and "xdnd_format s = X_None"
  shows "onClientMessage E A dropped False window s =
           (if 2 \<le> sint (xdnd_version s) \<and> sint (xdnd_version s) \<le> 5
            then emit [XSendEvent (xdnd_source s) NoEventMask
                         (ClientMessageReply
                            \<lparr> c_window = xdnd_source s, c_message_type = XdndFinished A,
                              c_format = 32, c_l0 = x11_handle (windows s window),
                              c_l1 = 0, c_l2 = X_None, c_l3 = 0, c_l4 = 0 \<rparr>),
                       XFlush] s
            else s)"
  using assms by (simp add: onClientMessage_def GLFW_XDND_VERSION_def)

text \<open>
  Claim C6, as amended. An XdndEnter message whose formats (the three inline atoms, or
  the type list property of the source) lack \<open>text/uri-list\<close> leaves the session's
  format unset and makes no call. A drop message that follows is answered at once with
  an XdndFinished message to the source, carrying the window, the value 0 for
  "rejected" and the action \<open>None\<close>, exactly when the announced version is between 2 and
  5; at any other version the drop changes nothing. In neither case is
  \<^verbatim>\<open>XConvertSelection\<close> called.
\<close>

theorem xdnd_unsupported_formats_rejected:
  assumes "distinct [X_None, WM_PROTOCOLS A, XdndEnter A, XdndDrop A]"
    and "c_message_type enter = XdndEnter A"
    and "c_message_type dropped = XdndDrop A"
    and "context_table s (c_window enter) = Some window"
    and "context_table s (c_window dropped) = Some window"
    and "text_uri_list A \<notin> set (xdnd_enter_formats E A enter)"
  shows "\<exists>s1.
     processEvent E A (ClientMessage enter) False queue s = Inr s1 \<and>
     xdnd_format s1 = X_None \<and> xdnd_source s1 = c_l0 enter \<and> trace s1 = trace s \<and>
     processEvent E A (ClientMessage dropped) False queue' s1 =
       Inr (if 2 \<le> announced_version enter \<and> announced_version enter \<le> 5
            then s1\<lparr>trace := trace s @
                   [XSendEvent (c_l0 enter) NoEventMask
                      (ClientMessageReply
                         \<lparr> c_window = c_l0 enter, c_message_type = XdndFinished A,
                           c_format = 32, c_l0 = x11_handle (windows s window),
                           c_l1 = 0, c_l2 = X_None, c_l3 = 0, c_l4 = 0 \<rparr>),
                    XFlush]\<rparr>
            else s1)"
proof -
  let ?s1 = "s\<lparr>xdnd_source := c_l0 enter,
               xdnd_version := ucast (signed_drop_bit 24 (c_l1 enter)),
               xdnd_format := X_None\<rparr>"
  from assms(1) have d: "XdndEnter A \<noteq> X_None" "XdndEnter A \<noteq> WM_PROTOCOLS A"
    "XdndDrop A \<noteq> X_None" "XdndDrop A \<noteq> WM_PROTOCOLS A" "XdndDrop A \<noteq> XdndEnter A"
    by auto
  have e: "processEvent E A (ClientMessage enter) False queue s = Inr ?s1"
    using xdnd_enter_result [OF d(1,2) assms(2) assms(6), of window s] assms(4)
    by (simp add: processEvent_def)
  have f: "xdnd_format ?s1 = X_None" by simp
  have g: "processEvent E A (ClientMessage dropped) False queue' ?s1 =
       Inr (if 2 \<le> announced_version enter \<and> announced_version enter \<le> 5
            then ?s1\<lparr>trace := trace s @
                   [XSendEvent (c_l0 enter) NoEventMask
                      (ClientMessageReply
                         \<lparr> c_window = c_l0 enter, c_message_type = XdndFinished A,
                           c_format = 32, c_l0 = x11_handle (windows s window),
                           c_l1 = 0, c_l2 = X_None, c_l3 = 0, c_l4 = 0 \<rparr>),
                    XFlush]\<rparr>
            else ?s1)"
    using xdnd_drop_result [OF d(3,4,5) assms(3) f, of E window] assms(5)
    by (simp add: processEvent_def announced_version_def emit_def)
  show ?thesis
    apply (rule exI [of _ ?s1])
    using e g by simp
qed

theorem xdnd_unsupported_formats_rejected_witness:
  "distinct [X_None, WM_PROTOCOLS session_atoms, XdndEnter session_atoms, XdndDrop session_atoms] \<and>
   text_uri_list session_atoms \<notin> set (xdnd_enter_formats session_env session_atoms
      \<lparr> c_window = 0x400001, c_message_type = 312, c_format = 32,
        c_l0 = 0x600007, c_l1 = 0x05000000, c_l2 = 500, c_l3 = 0, c_l4 = 0 \<rparr>) \<and>
   announced_version \<lparr> c_window = 0x400001, c_message_type = 312, c_format = 32,
        c_l0 = 0x600007, c_l1 = 0x05000000, c_l2 = 500, c_l3 = 0, c_l4 = 0 \<rparr> = 5 \<and>
   (\<exists>s1.
     processEvent session_env session_atoms
       (ClientMessage \<lparr> c_window = 0x400001, c_message_type = 312, c_format = 32,
          c_l0 = 0x600007, c_l1 = 0x05000000, c_l2 = 500, c_l3 = 0, c_l4 = 0 \<rparr>) False []
       session_state = Inr s1 \<and>
     xdnd_format s1 = X_None \<and>
     processEvent session_env session_atoms
       (ClientMessage \<lparr> c_window = 0x400001, c_message_type = 316, c_format = 32,
          c_l0 = 0x600007, c_l1 = 0, c_l2 = 1234, c_l3 = 0, c_l4 = 0 \<rparr>) False [] s1 =
       Inr (s1\<lparr>trace :=
              [XSendEvent 0x600007 NoEventMask
                 (ClientMessageReply
                    \<lparr> c_window = 0x600007, c_message_type = 317, c_format = 32,
                      c_l0 = 0x400001, c_l1 = 0, c_l2 = 0, c_l3 = 0, c_l4 = 0 \<rparr>),
               XFlush]\<rparr>))"
proof -
  have d: "distinct [X_None, WM_PROTOCOLS session_atoms, XdndEnter session_atoms,
             XdndDrop session_atoms]"
    by (simp add: session_atoms_def X_None_def)
  have f: "text_uri_list session_atoms \<notin> set (xdnd_enter_formats session_env session_atoms
      \<lparr> c_window = 0x400001, c_message_type = 312, c_format = 32,
        c_l0 = 0x600007, c_l1 = 0x05000000, c_l2 = 500, c_l3 = 0, c_l4 = 0 \<rparr>)"
    by (simp add: xdnd_enter_formats_def session_atoms_def)
  have v: "announced_version \<lparr> c_window = 0x400001, c_message_type = 312, c_format = 32,
        c_l0 = 0x600007, c_l1 = 0x05000000, c_l2 = 500, c_l3 = 0, c_l4 = 0 \<rparr> = 5"
    by (simp add: announced_version_def)
  have c: "context_table session_state 0x400001 = Some 1" by (simp add: session_state_def)
  have h: "x11_handle (windows session_state 1) = 0x400001" "trace session_state = []"
    by (simp_all add: session_state_def session_window_def)
  show ?thesis
    using d f v h xdnd_unsupported_formats_rejected
      [where A = session_atoms and E = session_env and s = session_state and window = 1
         and enter = "\<lparr> c_window = 0x400001, c_message_type = 312, c_format = 32,
          c_l0 = 0x600007, c_l1 = 0x05000000, c_l2 = 500, c_l3 = 0, c_l4 = 0 \<rparr>"
         and dropped = "\<lparr> c_window = 0x400001, c_message_type = 316, c_format = 32,
          c_l0 = 0x600007, c_l1 = 0, c_l2 = 1234, c_l3 = 0, c_l4 = 0 \<rparr>"
         and queue = "[]" and queue' = "[]", OF d _ _ _ _ f]
      c
    by (auto simp add: session_atoms_def X_None_def)
qed

text \<open>
  The claim as first stated promises the rejection for every version from 2 upwards.
  A session announced at version 6 is beyond \<^verbatim>\<open>_GLFW_XDND_VERSION\<close>: its drop gets no
  reply at all.
\<close>

theorem xdnd_newer_version_counterexample:
  "announced_version \<lparr> c_window = 0x400001, c_message_type = 312, c_format = 32,
        c_l0 = 0x600007, c_l1 = 0x06000000, c_l2 = 500, c_l3 = 0, c_l4 = 0 \<rparr> = 6 \<and>
   text_uri_list session_atoms \<notin> set (xdnd_enter_formats session_env session_atoms
      \<lparr> c_window = 0x400001, c_message_type = 312, c_format = 32,
        c_l0 = 0x600007, c_l1 = 0x06000000, c_l2 = 500, c_l3 = 0, c_l4 = 0 \<rparr>) \<and>
   processEvent session_env session_atoms
     (ClientMessage \<lparr> c_window = 0x400001, c_message_type = 312, c_format = 32,
        c_l0 = 0x600007, c_l1 = 0x06000000, c_l2 = 500, c_l3 = 0, c_l4 = 0 \<rparr>) False []
     session_state
   = Inr (session_state\<lparr>xdnd_source := 0x600007, xdnd_version := 6, xdnd_format := 0\<rparr>) \<and>
   processEvent session_env session_atoms
     (ClientMessage \<lparr> c_window = 0x400001, c_message_type = 316, c_format = 32,
        c_l0 = 0x600007, c_l1 = 0, c_l2 = 1234, c_l3 = 0, c_l4 = 0 \<rparr>) False []
     (session_state\<lparr>xdnd_source := 0x600007, xdnd_version := 6, xdnd_format := 0\<rparr>)
   = Inr (session_state\<lparr>xdnd_source := 0x600007, xdnd_version := 6, xdnd_format := 0\<rparr>) \<and>
   trace (session_state\<lparr>xdnd_source := 0x600007, xdnd_version := 6, xdnd_format := 0\<rparr>) = []"
  by (simp add: announced_version_def processEvent_def onClientMessage_def session_atoms_def
      session_state_def xdnd_enter_formats_def X_None_def GLFW_XDND_VERSION_def Let_def)


subsection \<open>Choosing an EGL configuration\<close>

lemma scan_config_wrongApi:
  "wrongApiAvailable (scan_config env ctxconfig fbconfig n st) \<longleftrightarrow>
     wrongApiAvailable st \<or> wrong_api_only env ctxconfig n"
  by (simp add: scan_config_def wrong_api_only_def Let_def requested_api_bit_def apiBit_def
      surfaceBit_def EGL_RGB_BUFFER_def EGL_PBUFFER_BIT_def EGL_WINDOW_BIT_def
      EGL_OPENGL_ES_BIT_def EGL_OPENGL_ES2_BIT_def EGL_OPENGL_BIT_def
      split: client_api.splits)

lemma fold_scan_config_wrongApi:
  "wrongApiAvailable (fold (scan_config env ctxconfig fbconfig) ns st) \<longleftrightarrow>
     wrongApiAvailable st \<or> (\<exists>n \<in> set ns. wrong_api_only env ctxconfig n)"
  by (induction ns arbitrary: st) (auto simp add: scan_config_wrongApi)

lemma scan_configs_wrongApi:
  "wrongApiAvailable (scan_configs env ctxconfig fbconfig ns) \<longleftrightarrow>
     (\<exists>n \<in> set ns. wrong_api_only env ctxconfig n)"
  by (simp add: scan_configs_def fold_scan_config_wrongApi)

text \<open>
  Claim C1, as amended. Stereo is not requested. When the enumeration returns no
  configuration, or when it returns some and the closest-match step leaves no
  candidate, the selector fails without writing a configuration and reports exactly
  one error. With no configuration enumerated it is \<open>GLFW_API_UNAVAILABLE\<close>, saying that
  no configuration was returned. Otherwise it is \<open>GLFW_API_UNAVAILABLE\<close>, naming OpenGL
  ES 1.x, OpenGL ES 2 or later, or OpenGL as requested, when some enumerated
  configuration was discarded for lacking the bit of the requested client API alone,
  and \<open>GLFW_FORMAT_UNAVAILABLE\<close> otherwise.
\<close>

theorem chooseEGLConfig_no_candidate:
  assumes "\<not> stereo fbconfig"
    and "nativeConfigs = [] \<or>
         glfwChooseFBConfig env fbconfig
           (usable (scan_configs env ctxconfig fbconfig nativeConfigs)) = None"
  shows "chooseEGLConfig env ctxconfig fbconfig nativeConfigs =
     (False, None,
      [if nativeConfigs = []
       then (GLFW_API_UNAVAILABLE, ''EGL: No EGLConfigs returned'')
       else if \<exists>n \<in> set nativeConfigs. wrong_api_only env ctxconfig n
       then (GLFW_API_UNAVAILABLE,
             if client ctxconfig = GLFW_OPENGL_ES_API \<and> major ctxconfig = 1
               then ''EGL: Failed to find support for OpenGL ES 1.x''
             else if client ctxconfig = GLFW_OPENGL_ES_API
               then ''EGL: Failed to find support for OpenGL ES 2 or later''
             else ''EGL: Failed to find support for OpenGL'')
       else (GLFW_FORMAT_UNAVAILABLE, ''EGL: Failed to find a suitable EGLConfig'')])"
proof (cases "nativeConfigs = []")
  case True
  with assms(1) show ?thesis by (simp add: chooseEGLConfig_def)
next
  case False
  let ?st = "scan_configs env ctxconfig fbconfig nativeConfigs"
  have w: "wrongApiAvailable ?st \<longleftrightarrow> (\<exists>n \<in> set nativeConfigs. wrong_api_only env ctxconfig n)"
    by (rule scan_configs_wrongApi)
  from False assms(2) have n: "glfwChooseFBConfig env fbconfig (usable ?st) = None" by simp
  show ?thesis
    using assms(1) False n unfolding chooseEGLConfig_def Let_def w by simp
qed

theorem chooseEGLConfig_no_candidate_witness:
  "\<not> stereo (zeroed_fbconfig\<lparr>redBits := 8\<rparr>) \<and>
   chooseEGLConfig
     \<lparr> platformID = GLFW_PLATFORM_X11, GLFW_X11_defined = True, GLFW_WAYLAND_defined = False,
       EXT_present_opaque = False, XGetVisualInfo = (\<lambda>v. Some 1),
       glfwIsVisualTransparentX11 = (\<lambda>v. False),
       glfwChooseFBConfig = (\<lambda>d alts. case alts of [] \<Rightarrow> None | c # cs \<Rightarrow> Some c) \<rparr>
     \<lparr> client = GLFW_OPENGL_API, major = 3 \<rparr>
     (zeroed_fbconfig\<lparr>redBits := 8\<rparr>)
     [\<lparr> config_handle = 5, COLOR_BUFFER_TYPE = 0x308E, SURFACE_TYPE = 4, NATIVE_VISUAL_ID = 33,
       RENDERABLE_TYPE = 4, RED_SIZE = 8, GREEN_SIZE = 8, BLUE_SIZE = 8, ALPHA_SIZE = 0,
       DEPTH_SIZE = 24, STENCIL_SIZE = 8, SAMPLES = 0 \<rparr>]
   = (False, None, [(GLFW_API_UNAVAILABLE, ''EGL: Failed to find support for OpenGL'')]) \<and>
   chooseEGLConfig
     \<lparr> platformID = GLFW_PLATFORM_X11, GLFW_X11_defined = True, GLFW_WAYLAND_defined = False,
       EXT_present_opaque = False, XGetVisualInfo = (\<lambda>v. Some 1),
       glfwIsVisualTransparentX11 = (\<lambda>v. False),
       glfwChooseFBConfig = (\<lambda>d alts. case alts of [] \<Rightarrow> None | c # cs \<Rightarrow> Some c) \<rparr>
     \<lparr> client = GLFW_OPENGL_ES_API, major = 2 \<rparr>
     (zeroed_fbconfig\<lparr>redBits := 8\<rparr>)
     [\<lparr> config_handle = 5, COLOR_BUFFER_TYPE = 0x308E, SURFACE_TYPE = 1, NATIVE_VISUAL_ID = 33,
       RENDERABLE_TYPE = 4, RED_SIZE = 8, GREEN_SIZE = 8, BLUE_SIZE = 8, ALPHA_SIZE = 0,
       DEPTH_SIZE = 24, STENCIL_SIZE = 8, SAMPLES = 0 \<rparr>]
   = (False, None, [(GLFW_FORMAT_UNAVAILABLE, ''EGL: Failed to find a suitable EGLConfig'')])"
  using chooseEGLConfig_no_candidate
    [of "zeroed_fbconfig\<lparr>redBits := 8\<rparr>"
        "[\<lparr> config_handle = 5, COLOR_BUFFER_TYPE = 0x308E, SURFACE_TYPE = 4, NATIVE_VISUAL_ID = 33,
           RENDERABLE_TYPE = 4, RED_SIZE = 8, GREEN_SIZE = 8, BLUE_SIZE = 8, ALPHA_SIZE = 0,
           DEPTH_SIZE = 24, STENCIL_SIZE = 8, SAMPLES = 0 \<rparr>]"
        "\<lparr> platformID = GLFW_PLATFORM_X11, GLFW_X11_defined = True, GLFW_WAYLAND_defined = False,
           EXT_present_opaque = False, XGetVisualInfo = (\<lambda>v. Some 1),
           glfwIsVisualTransparentX11 = (\<lambda>v. False),
           glfwChooseFBConfig = (\<lambda>d alts. case alts of [] \<Rightarrow> None | c # cs \<Rightarrow> Some c) \<rparr>"
        "\<lparr> client = GLFW_OPENGL_API, major = 3 \<rparr>"]
    chooseEGLConfig_no_candidate
    [of "zeroed_fbconfig\<lparr>redBits := 8\<rparr>"
        "[\<lparr> config_handle = 5, COLOR_BUFFER_TYPE = 0x308E, SURFACE_TYPE = 1, NATIVE_VISUAL_ID = 33,
           RENDERABLE_TYPE = 4, RED_SIZE = 8, GREEN_SIZE = 8, BLUE_SIZE = 8, ALPHA_SIZE = 0,
           DEPTH_SIZE = 24, STENCIL_SIZE = 8, SAMPLES = 0 \<rparr>]"
        "\<lparr> platformID = GLFW_PLATFORM_X11, GLFW_X11_defined = True, GLFW_WAYLAND_defined = False,
           EXT_present_opaque = False, XGetVisualInfo = (\<lambda>v. Some 1),
           glfwIsVisualTransparentX11 = (\<lambda>v. False),
           glfwChooseFBConfig = (\<lambda>d alts. case alts of [] \<Rightarrow> None | c # cs \<Rightarrow> Some c) \<rparr>"
        "\<lparr> client = GLFW_OPENGL_ES_API, major = 2 \<rparr>"]
  by (simp add: zeroed_fbconfig_def scan_configs_def scan_config_def wrong_api_only_def
      requested_api_bit_def surfaceBit_def apiBit_def visual_required_def EGL_RGB_BUFFER_def
      EGL_WINDOW_BIT_def EGL_OPENGL_BIT_def EGL_OPENGL_ES2_BIT_def)

text \<open>
  The claim as first stated reports \<open>GLFW_FORMAT_UNAVAILABLE\<close> whenever no candidate
  remains and no configuration was discarded for the wrong client API. When no
  configuration is enumerated at all, nothing is a candidate and nothing was
  discarded, yet the selector returns at its first test with \<open>GLFW_API_UNAVAILABLE\<close>.
\<close>

theorem chooseEGLConfig_no_configs_counterexample:
  "\<not> stereo zeroed_fbconfig \<and>
   usable (scan_configs
     \<lparr> platformID = GLFW_PLATFORM_X11, GLFW_X11_defined = True, GLFW_WAYLAND_defined = False,
       EXT_present_opaque = False, XGetVisualInfo = (\<lambda>v. Some 1),
       glfwIsVisualTransparentX11 = (\<lambda>v. False),
       glfwChooseFBConfig = (\<lambda>d alts. case alts of [] \<Rightarrow> None | c # cs \<Rightarrow> Some c) \<rparr>
     \<lparr> client = GLFW_OPENGL_API, major = 3 \<rparr> zeroed_fbconfig []) = [] \<and>
   \<not> wrongApiAvailable (scan_configs
     \<lparr> platformID = GLFW_PLATFORM_X11, GLFW_X11_defined = True, GLFW_WAYLAND_defined = False,
       EXT_present_opaque = False, XGetVisualInfo = (\<lambda>v. Some 1),
       glfwIsVisualTransparentX11 = (\<lambda>v. False),
       glfwChooseFBConfig = (\<lambda>d alts. case alts of [] \<Rightarrow> None | c # cs \<Rightarrow> Some c) \<rparr>
     \<lparr> client = GLFW_OPENGL_API, major = 3 \<rparr> zeroed_fbconfig []) \<and>
   chooseEGLConfig
     \<lparr> platformID = GLFW_PLATFORM_X11, GLFW_X11_defined = True, GLFW_WAYLAND_defined = False,
       EXT_present_opaque = False, XGetVisualInfo = (\<lambda>v. Some 1),
       glfwIsVisualTransparentX11 = (\<lambda>v. False),
       glfwChooseFBConfig = (\<lambda>d alts. case alts of [] \<Rightarrow> None | c # cs \<Rightarrow> Some c) \<rparr>
     \<lparr> client = GLFW_OPENGL_API, major = 3 \<rparr> zeroed_fbconfig []
   = (False, None, [(GLFW_API_UNAVAILABLE, ''EGL: No EGLConfigs returned'')])"
  by (simp add: chooseEGLConfig_def scan_configs_def zeroed_fbconfig_def)


subsection \<open>Serving a selection request\<close>

lemma selection_replies_append:
  "selection_replies (xs @ ys) = selection_replies xs @ selection_replies ys"
  by (simp add: selection_replies_def)

lemma selection_replies_simps:
  "selection_replies [] = []"
  "selection_replies (XChangeProperty w p t f v # acts) = selection_replies acts"
  "selection_replies (XSendEvent w m (SelectionNotify e) # acts) = e # selection_replies acts"
  by (simp_all add: selection_replies_def)

lemma multiple_loop_replies:
  assumes "even count" and "even i"
  shows "\<exists>targets' acts'.
     multiple_loop A requestor (Some str) count i targets acts = Inr (targets', acts') \<and>
     selection_replies acts' = selection_replies acts"
  using assms
proof (induction A requestor "Some str :: cstring option" count i targets acts
    rule: multiple_loop.induct)
  case (1 A requestor count i targets acts)
  show ?case
  proof (cases "i < count")
    case False
    then show ?thesis by (subst multiple_loop.simps) simp
  next
    case True
    note lt = this
    from lt "1.prems" have inb: "\<not> count \<le> i + 1" by presburger
    from "1.prems" have ev: "even (i + 2)" by simp
    show ?thesis
    proof (cases "targets i = UTF8_STRING A \<or> targets i = XA_STRING")
      case True
      from "1.hyps"(1)[OF lt inb True refl "1.prems"(1) ev] show ?thesis
        by (subst multiple_loop.simps)
          (use lt inb True in \<open>simp add: selection_replies_append selection_replies_simps\<close>)
    next
      case False
      from "1.hyps"(2)[OF lt inb False "1.prems"(1) ev] show ?thesis
        by (subst multiple_loop.simps) (use lt inb False in simp)
    qed
  qed
qed

lemma writeTargetToProperty_result:
  assumes "requested_string A s request = Some str"
    and "whole_pairs A readProperty request"
  shows "\<exists>acts. writeTargetToProperty A readProperty s request =
            Inr (if rejected A request then X_None else r_property request, acts) \<and>
          selection_replies acts = []"
proof -
  obtain count targets where g:
    "readProperty (r_requestor request) (r_property request) (ATOM_PAIR A) = (count, targets)"
    by (cases "readProperty (r_requestor request) (r_property request) (ATOM_PAIR A)")
  have m: "\<exists>t' acts'.
      multiple_loop A (r_requestor request) (Some str) count 0 targets [] = Inr (t', acts') \<and>
      selection_replies acts' = []" if "even count"
    using multiple_loop_replies [OF that, of 0 A "r_requestor request" str targets "[]"]
    by (simp add: selection_replies_simps)
  have sel: "(if r_selection request = PRIMARY A then primarySelectionString s
              else clipboardString s) = Some str"
    using assms(1) by (simp add: requested_string_def)
  consider (legacy) "r_property request = X_None"
    | (targets) "r_property request \<noteq> X_None" "r_target request = TARGETS A"
    | (multiple) "r_property request \<noteq> X_None" "r_target request \<noteq> TARGETS A"
        "r_target request = MULTIPLE A"
    | (save) "r_property request \<noteq> X_None" "r_target request \<noteq> TARGETS A"
        "r_target request \<noteq> MULTIPLE A" "r_target request = SAVE_TARGETS A"
    | (data) "r_property request \<noteq> X_None" "r_target request \<noteq> TARGETS A"
        "r_target request \<noteq> MULTIPLE A" "r_target request \<noteq> SAVE_TARGETS A"
        "r_target request = UTF8_STRING A \<or> r_target request = XA_STRING"
    | (other) "r_property request \<noteq> X_None" "r_target request \<noteq> TARGETS A"
        "r_target request \<noteq> MULTIPLE A" "r_target request \<noteq> SAVE_TARGETS A"
        "\<not> (r_target request = UTF8_STRING A \<or> r_target request = XA_STRING)"
    by blast
  then show ?thesis
  proof cases
    case legacy
    then show ?thesis
      by (simp add: writeTargetToProperty_def rejected_def selection_replies_simps)
  next
    case targets
    then show ?thesis
      by (simp add: writeTargetToProperty_def rejected_def supported_target_def
          selection_replies_simps)
  next
    case multiple
    with assms(2) g have "even count" by (simp add: whole_pairs_def)
    from m [OF this] obtain t' acts' where m':
      "multiple_loop A (r_requestor request) (Some str) count 0 targets [] = Inr (t', acts')"
      "selection_replies acts' = []" by blast
    from multiple show ?thesis
      using g m' sel
      by (simp add: writeTargetToProperty_def rejected_def supported_target_def
          selection_replies_simps selection_replies_append)
  next
    case save
    then show ?thesis
      by (simp add: writeTargetToProperty_def rejected_def supported_target_def
          selection_replies_simps)
  next
    case data
    then show ?thesis
      using sel
      by (simp add: writeTargetToProperty_def rejected_def supported_target_def
          selection_replies_simps)
  next
    case other
    then show ?thesis
      by (simp add: writeTargetToProperty_def rejected_def supported_target_def
          selection_replies_simps)
  qed
qed

text \<open>
  Requests whose property holds whole pairs. While the process holds the string of the
  requested selection, and when the ATOM_PAIR property of a MULTIPLE request holds an
  even number of atoms, handling a selection request ends with exactly one
  SelectionNotify event, sent to the requestor and echoing the request's selection,
  target and time. Its property is \<open>None\<close> exactly when the request is rejected: it names
  no destination property, or its target is none of TARGETS, MULTIPLE, SAVE_TARGETS,
  UTF8_STRING and STRING. For an accepted request the property is the requested one.
\<close>

theorem handleSelectionRequest_whole_pairs:
  assumes "requested_string A s request \<noteq> None"
    and "whole_pairs A readProperty request"
  shows "\<exists>acts e.
     handleSelectionRequest A readProperty s request =
       Inr (s\<lparr>trace := trace s @ acts\<rparr>) \<and>
     selection_replies acts = [e] \<and>
     last acts = XSendEvent (r_requestor request) 0 (SelectionNotify e) \<and>
     n_requestor e = r_requestor request \<and>
     n_selection e = r_selection request \<and>
     n_target e = r_target request \<and>
     n_time e = r_time request \<and>
     (n_property e = X_None \<longleftrightarrow> rejected A request) \<and>
     (\<not> rejected A request \<longrightarrow> n_property e = r_property request)"
proof -
  from assms(1) obtain str where str: "requested_string A s request = Some str" by auto
  from writeTargetToProperty_result[OF str assms(2)]
  obtain acts where w:
    "writeTargetToProperty A readProperty s request =
       Inr (if rejected A request then X_None else r_property request, acts)"
    "selection_replies acts = []" by blast
  let ?e = "\<lparr> n_requestor = r_requestor request, n_selection = r_selection request,
              n_target = r_target request,
              n_property = (if rejected A request then X_None else r_property request),
              n_time = r_time request \<rparr>"
  let ?acts = "acts @ [XSendEvent (r_requestor request) 0 (SelectionNotify ?e)]"
  have h: "handleSelectionRequest A readProperty s request =
             Inr (s\<lparr>trace := trace s @ ?acts\<rparr>)"
    using w(1) by (simp add: handleSelectionRequest_def emit_def)
  have r: "selection_replies ?acts = [?e]"
    using w(2) by (simp add: selection_replies_append selection_replies_simps)
  have np: "\<not> rejected A request \<Longrightarrow> r_property request \<noteq> X_None"
    by (simp add: rejected_def)
  have p: "(n_property ?e = X_None \<longleftrightarrow> rejected A request) \<and>
           (\<not> rejected A request \<longrightarrow> n_property ?e = r_property request)"
    using np by simp
  show ?thesis
    apply (rule exI[of _ ?acts])
    apply (rule exI[of _ ?e])
    using h r p by simp
qed

theorem handleSelectionRequest_whole_pairs_example:
  "requested_string session_atoms (session_state\<lparr>clipboardString := Some [0x68, 0x69]\<rparr>)
     \<lparr> r_requestor = 0x600007, r_selection = 303, r_target = 301, r_property = 400, r_time = 77 \<rparr>
     \<noteq> None \<and>
   whole_pairs session_atoms (\<lambda>w p t. (2, \<lambda>i. if i = 0 then 306 else 401))
     \<lparr> r_requestor = 0x600007, r_selection = 303, r_target = 301, r_property = 400, r_time = 77 \<rparr> \<and>
   \<not> rejected session_atoms
     \<lparr> r_requestor = 0x600007, r_selection = 303, r_target = 301, r_property = 400, r_time = 77 \<rparr> \<and>
   (\<exists>acts e.
      handleSelectionRequest session_atoms (\<lambda>w p t. (2, \<lambda>i. if i = 0 then 306 else 401))
        (session_state\<lparr>clipboardString := Some [0x68, 0x69]\<rparr>)
        \<lparr> r_requestor = 0x600007, r_selection = 303, r_target = 301, r_property = 400, r_time = 77 \<rparr>
        = Inr (session_state\<lparr>clipboardString := Some [0x68, 0x69],
                 trace := trace (session_state\<lparr>clipboardString := Some [0x68, 0x69]\<rparr>) @ acts\<rparr>) \<and>
      selection_replies acts = [e] \<and> n_property e = 400)"
proof -
  have r: "\<not> rejected session_atoms
     \<lparr> r_requestor = 0x600007, r_selection = 303, r_target = 301, r_property = 400, r_time = 77 \<rparr>"
    by (simp add: rejected_def supported_target_def session_atoms_def X_None_def)
  have h: "requested_string session_atoms (session_state\<lparr>clipboardString := Some [0x68, 0x69]\<rparr>)
     \<lparr> r_requestor = 0x600007, r_selection = 303, r_target = 301, r_property = 400, r_time = 77 \<rparr>
     \<noteq> None"
    by (simp add: requested_string_def session_atoms_def)
  have p: "whole_pairs session_atoms (\<lambda>w p t. (2, \<lambda>i. if i = 0 then 306 else 401))
     \<lparr> r_requestor = 0x600007, r_selection = 303, r_target = 301, r_property = 400, r_time = 77 \<rparr>"
    by (simp add: whole_pairs_def)
  from handleSelectionRequest_whole_pairs [OF h p] r h p show ?thesis
    by auto
qed

text \<open>
  Claim C10 promises one reply for every selection request. A MULTIPLE request whose
  ATOM_PAIR property holds a single atom is one the requestor can send: the loop over
  the pairs tests \<^verbatim>\<open>i < count\<close> only, and in its first round reads \<^verbatim>\<open>targets[1]\<close> behind the
  one element that was read from the property. What follows is undefined, and no reply
  is assured.
\<close>

theorem handleSelectionRequest_odd_pair_count:
  "requested_string session_atoms (session_state\<lparr>clipboardString := Some [0x68, 0x69]\<rparr>)
     \<lparr> r_requestor = 0x600007, r_selection = 303, r_target = 301, r_property = 400, r_time = 77 \<rparr>
     = Some [0x68, 0x69] \<and>
   handleSelectionRequest session_atoms (\<lambda>w p t. (1, \<lambda>i. 306))
     (session_state\<lparr>clipboardString := Some [0x68, 0x69]\<rparr>)
     \<lparr> r_requestor = 0x600007, r_selection = 303, r_target = 301, r_property = 400, r_time = 77 \<rparr>
   = Inl OutOfBounds"
  by (simp add: handleSelectionRequest_def writeTargetToProperty_def requested_string_def
      session_atoms_def X_None_def multiple_loop.simps)


subsection \<open>Key releases of an auto-repeating key\<close>

lemma repeat_test:
  fixes rel press :: Time
  assumes "timestamp32 rel" "timestamp32 press"
  shows "press - rel < 20 \<longleftrightarrow> unat rel \<le> unat press \<and> unat press - unat rel < 20"
proof -
  have "press - rel < 20 \<longleftrightarrow> unat (press - rel) < 20"
    by (simp add: word_less_nat_alt)
  also have "\<dots> \<longleftrightarrow> unat rel \<le> unat press \<and> unat press - unat rel < 20"
    using assms by (auto simp add: unat_sub_if_size word_size timestamp32_def)
  finally show ?thesis .
qed

lemma repeat_follows_next_press:
  "repeat_follows ev queue \<longleftrightarrow>
     (\<exists>nk. next_press queue = Some nk \<and> k_window nk = k_window ev \<and>
           k_keycode nk = k_keycode ev \<and> k_time nk - k_time ev < 20)"
  by (auto simp add: repeat_follows_def next_press_def
      split: list.splits option.splits XEvent.splits)

text \<open>
  Claim C3, as amended. Detectable auto-repeat is unavailable, the released key's
  window is known, and the timestamps are values of the server's 32-bit clock. The
  release is dropped, with no call into the input sink and no change of state, exactly
  when the next queued event is a key press on the same window with the same key code
  whose timestamp is the release's or less than 20 milliseconds later. Every other
  release is delivered as one \<open>GLFW_RELEASE\<close> key event. A press stamped less than 20
  milliseconds after the release across a wrap of the clock is not covered.
\<close>

theorem key_release_repeat_suppression:
  assumes "\<not> xkb_detectable s"
    and "context_table s (k_window ev) = Some window"
    and "timestamp32 (k_time ev)"
    and "next_press queue = None \<or>
         (\<exists>nk. next_press queue = Some nk \<and> timestamp32 (k_time nk) \<and>
               \<not> wrapped_within 20 (k_time ev) (k_time nk))"
  shows "processEvent E A (KeyRelease ev) filtered queue s =
     Inr (if \<exists>nk. next_press queue = Some nk \<and> repeats ev nk
          then s
          else emit [glfwInputKey window (translateKey s (k_keycode ev)) (k_keycode ev)
                       GLFW_RELEASE (translateState (k_state ev))] s)"
proof -
  have "repeat_follows ev queue \<longleftrightarrow> (\<exists>nk. next_press queue = Some nk \<and> repeats ev nk)"
  proof (cases "next_press queue")
    case None
    then show ?thesis by (simp add: repeat_follows_next_press)
  next
    case (Some nk)
    with assms(4) have "timestamp32 (k_time nk)" by auto
    from repeat_test [OF assms(3) this] Some show ?thesis
      by (simp add: repeat_follows_next_press repeats_def)
  qed
  with assms(1,2) show ?thesis
    by (simp add: processEvent_def onKeyRelease_def Let_def)
qed

theorem key_release_repeat_suppression_witness:
  "\<not> xkb_detectable session_state \<and>
   context_table session_state 0x400001 = Some 1 \<and>
   timestamp32 1000 \<and> timestamp32 1005 \<and> \<not> wrapped_within 20 1000 1005 \<and>
   repeats \<lparr> k_window = 0x400001, k_keycode = 38, k_state = 0, k_time = 1000 \<rparr>
     \<lparr> k_window = 0x400001, k_keycode = 38, k_state = 0, k_time = 1005 \<rparr> \<and>
   processEvent session_env session_atoms
     (KeyRelease \<lparr> k_window = 0x400001, k_keycode = 38, k_state = 0, k_time = 1000 \<rparr>) False
     [Some (KeyPress \<lparr> k_window = 0x400001, k_keycode = 38, k_state = 0, k_time = 1005 \<rparr>)]
     session_state = Inr session_state \<and>
   processEvent session_env session_atoms
     (KeyRelease \<lparr> k_window = 0x400001, k_keycode = 38, k_state = 0, k_time = 1000 \<rparr>) False
     [Some (KeyPress \<lparr> k_window = 0x400001, k_keycode = 38, k_state = 0, k_time = 1020 \<rparr>)]
     session_state =
       Inr (emit [glfwInputKey 1 38 38 GLFW_RELEASE 0] session_state)"
proof -
  have d: "\<not> xkb_detectable session_state" by (simp add: session_state_def)
  have c: "context_table session_state
             (k_window \<lparr> k_window = 0x400001, k_keycode = 38, k_state = 0, k_time = 1000 \<rparr>) = Some 1"
    by (simp add: session_state_def)
  have t: "timestamp32 (k_time \<lparr> k_window = 0x400001, k_keycode = 38, k_state = 0, k_time = 1000 \<rparr>)"
    by (simp add: timestamp32_def)
  have t': "timestamp32 1000" "timestamp32 1005" "timestamp32 1020"
    "\<not> wrapped_within 20 1000 1005" "\<not> wrapped_within 20 1000 1020"
    by (simp_all add: timestamp32_def wrapped_within_def)
  have n1: "next_press
      [Some (KeyPress \<lparr> k_window = 0x400001, k_keycode = 38, k_state = 0, k_time = 1005 \<rparr>)]
      = Some \<lparr> k_window = 0x400001, k_keycode = 38, k_state = 0, k_time = 1005 \<rparr>"
    and n2: "next_press
      [Some (KeyPress \<lparr> k_window = 0x400001, k_keycode = 38, k_state = 0, k_time = 1020 \<rparr>)]
      = Some \<lparr> k_window = 0x400001, k_keycode = 38, k_state = 0, k_time = 1020 \<rparr>"
    by (simp_all add: next_press_def)
  have q1: "next_press
      [Some (KeyPress \<lparr> k_window = 0x400001, k_keycode = 38, k_state = 0, k_time = 1005 \<rparr>)] = None \<or>
     (\<exists>nk. next_press
      [Some (KeyPress \<lparr> k_window = 0x400001, k_keycode = 38, k_state = 0, k_time = 1005 \<rparr>)]
        = Some nk \<and> timestamp32 (k_time nk) \<and>
        \<not> wrapped_within 20
            (k_time \<lparr> k_window = 0x400001, k_keycode = 38, k_state = 0, k_time = 1000 \<rparr>)
            (k_time nk))"
    using t' by (simp add: n1)
  have q2: "next_press
      [Some (KeyPress \<lparr> k_window = 0x400001, k_keycode = 38, k_state = 0, k_time = 1020 \<rparr>)] = None \<or>
     (\<exists>nk. next_press
      [Some (KeyPress \<lparr> k_window = 0x400001, k_keycode = 38, k_state = 0, k_time = 1020 \<rparr>)]
        = Some nk \<and> timestamp32 (k_time nk) \<and>
        \<not> wrapped_within 20
            (k_time \<lparr> k_window = 0x400001, k_keycode = 38, k_state = 0, k_time = 1000 \<rparr>)
            (k_time nk))"
    using t' by (simp add: n2)
  have k: "translateKey session_state 38 = 38" by (simp add: translateKey_def session_state_def)
  have m: "translateState 0 = 0" by (simp add: translateState_def)
  show ?thesis
    using d c k m t'
      key_release_repeat_suppression [OF d c t q1, of session_env session_atoms False]
      key_release_repeat_suppression [OF d c t q2, of session_env session_atoms False]
    by (simp add: n1 n2 repeats_def)
qed

text \<open>
  The claim as first stated drops the release when the two timestamps differ by less
  than 20 milliseconds, in either direction. The difference
  \<^verbatim>\<open>next.xkey.time - event->xkey.time\<close> is unsigned: for a press stamped 5 milliseconds
  before the release it is huge, and the release is delivered.
\<close>

theorem key_release_earlier_press_counterexample:
  "\<not> xkb_detectable session_state \<and>
   processEvent session_env session_atoms
     (KeyRelease \<lparr> k_window = 0x400001, k_keycode = 38, k_state = 0, k_time = 1005 \<rparr>) False
     [Some (KeyPress \<lparr> k_window = 0x400001, k_keycode = 38, k_state = 0, k_time = 1000 \<rparr>)]
     session_state =
       Inr (emit [glfwInputKey 1 38 38 GLFW_RELEASE 0] session_state)"
  by (simp add: processEvent_def onKeyRelease_def repeat_follows_def session_state_def
      translateKey_def translateState_def Let_def)

text \<open>
  Left open by the theorem above: the clock wraps between the release and a press 10
  milliseconds later. On the 64-bit \<^verbatim>\<open>Time\<close> the difference does not wrap with it, and
  the release is delivered.
\<close>

lemma key_release_clock_wrap:
  "timestamp32 0xFFFFFFFB \<and> timestamp32 5 \<and> wrapped_within 20 0xFFFFFFFB 5 \<and>
   processEvent session_env session_atoms
     (KeyRelease \<lparr> k_window = 0x400001, k_keycode = 38, k_state = 0, k_time = 0xFFFFFFFB \<rparr>)
     False
     [Some (KeyPress \<lparr> k_window = 0x400001, k_keycode = 38, k_state = 0, k_time = 5 \<rparr>)]
     session_state =
       Inr (emit [glfwInputKey 1 38 38 GLFW_RELEASE 0] session_state)"
  by (simp add: processEvent_def onKeyRelease_def repeat_follows_def session_state_def
      translateKey_def translateState_def Let_def timestamp32_def wrapped_within_def)


subsection \<open>Key presses duplicated by the input method\<close>

lemma press_allowed_iff:
  assumes "timestamp32 t" "timestamp32 x" "\<not> wrapped_within (2 ^ 31) x t"
  shows "press_allowed t x = press_accepted x t"
proof (cases "x = 0")
  case True
  then show ?thesis by (simp add: press_allowed_def press_accepted_def)
next
  case False
  have a: "(t - x = t) = False" using False by simp
  have b: "(0 < t - x \<and> t - x < push_bit 31 1) \<longleftrightarrow> (unat (t - x) \<noteq> 0 \<and> unat (t - x) < 2 ^ 31)"
    by (simp add: word_less_nat_alt unat_gt_0)
  have t32: "unat t < 2 ^ 32" and x32: "unat x < 2 ^ 32"
    using assms(1,2) by (simp_all add: timestamp32_def)
  show ?thesis
  proof (cases "unat x \<le> unat t")
    case True
    then have u: "unat (t - x) = unat t - unat x" by (simp add: unat_sub_if_size)
    have "unat t + 2 ^ 32 - unat x = (unat t - unat x) + 2 ^ 32" using True by simp
    moreover have "unat t - unat x < 2 ^ 32" using t32 by simp
    ultimately have m: "(unat t + 2 ^ 32 - unat x) mod 2 ^ 32 = unat t - unat x"
      by (metis mod_add_self2 mod_less)
    show ?thesis
      unfolding press_allowed_def press_accepted_def Let_def a b u m using False by simp
  next
    case lt: False
    then have u: "unat (t - x) = unat t + 2 ^ 64 - unat x" by (simp add: unat_sub_if_size word_size)
    have big: "\<not> unat (t - x) < 2 ^ 31"
      using x32 lt unfolding u by simp
    have "unat t + 2 ^ 32 - unat x < 2 ^ 32" using lt by simp
    then have m: "(unat t + 2 ^ 32 - unat x) mod 2 ^ 32 = unat t + 2 ^ 32 - unat x"
      by (rule mod_less)
    have w: "\<not> unat t + 2 ^ 32 - unat x < 2 ^ 31"
      using assms(3) lt by (simp add: wrapped_within_def)
    show ?thesis
      unfolding press_allowed_def press_accepted_def Let_def a b m using False big w by simp
  qed
qed

lemma press_allowed_again:
  "t \<noteq> 0 \<Longrightarrow> \<not> press_allowed t (if press_allowed t x then t else x)"
  by (simp add: press_allowed_def)

lemma key_events_simps:
  "key_events act [] = []"
  "key_events act (xs @ ys) = key_events act xs @ key_events act ys"
  "key_events act (glfwInputKey w key sc act' mods # xs) =
     (if act' = act then glfwInputKey w key sc act' mods # key_events act xs
      else key_events act xs)"
  "key_events act (map (\<lambda>cp. glfwInputChar w cp mods plain) cps) = []"
  by (simp_all add: key_events_def)

lemma onKeyPress_ic:
  assumes "x11_ic (windows s window) \<noteq> None"
    and "k_keycode ev \<le> 255"
    and "decode_chars (snd (Xutf8LookupString E ev)) = Inr cps"
  shows "\<exists>s1.
     onKeyPress E ev filtered window s = Inr s1 \<and>
     key_events GLFW_PRESS (trace s1) = key_events GLFW_PRESS (trace s) @
       (if press_allowed (k_time ev) (x11_keyPressTimes (windows s window) (k_keycode ev)) \<and>
           k_keycode ev \<noteq> 0
        then [glfwInputKey window (translateKey s (k_keycode ev)) (k_keycode ev) GLFW_PRESS
                (translateState (k_state ev))]
        else []) \<and>
     x11_keyPressTimes (windows s1 window) (k_keycode ev) =
       (if press_allowed (k_time ev) (x11_keyPressTimes (windows s window) (k_keycode ev))
        then k_time ev
        else x11_keyPressTimes (windows s window) (k_keycode ev)) \<and>
     x11_ic (windows s1 window) = x11_ic (windows s window) \<and>
     context_table s1 = context_table s \<and>
     keycodes s1 = keycodes s"
proof -
  obtain ic where ic: "x11_ic (windows s window) = Some ic" using assms(1) by auto
  obtain status chars where l: "Xutf8LookupString E ev = (status, chars)"
    by (cases "Xutf8LookupString E ev")
  with assms(3) have d: "decode_chars chars = Inr cps" by simp
  show ?thesis
    using ic l d assms(2)
    by (simp add: onKeyPress_def Let_def emit_def key_events_simps)
qed

text \<open>
  Claim C4, as amended. The window has an input context, the key code indexes the
  timestamp table and the input method's text decodes. Two key presses arrive for the
  same window and key code with the same timestamp, a value of the server's 32-bit
  clock like the one stored for the key code. The first one is delivered exactly when
  the timestamp comparison accepts it (no press recorded for the key code, or a
  difference on the 32-bit clock that is not zero and below \<open>2 ^ 31\<close>) and its key
  code is not 0; the stored timestamp becomes the event's exactly when the comparison
  accepts it. If the timestamp is not zero, the second one is never delivered: the
  pair produces at most one key press, and exactly one when the first is delivered. A
  press stamped less than \<open>2 ^ 31\<close> milliseconds after the stored timestamp across a
  wrap of the clock is not covered.
\<close>

theorem key_press_duplicate_suppression:
  assumes "context_table s (k_window ev) = Some window"
    and "x11_ic (windows s window) \<noteq> None"
    and "k_keycode ev \<le> 255"
    and "decode_chars (snd (Xutf8LookupString E ev)) = Inr cps"
    and "k_window ev' = k_window ev"
    and "k_keycode ev' = k_keycode ev"
    and "k_time ev' = k_time ev"
    and "decode_chars (snd (Xutf8LookupString E ev')) = Inr cps'"
    and "timestamp32 (k_time ev)"
    and "timestamp32 (x11_keyPressTimes (windows s window) (k_keycode ev))"
    and "\<not> wrapped_within (2 ^ 31) (x11_keyPressTimes (windows s window) (k_keycode ev))
           (k_time ev)"
  shows "\<exists>s1 s2.
     processEvent E A (KeyPress ev) filtered queue s = Inr s1 \<and>
     processEvent E A (KeyPress ev') filtered' queue' s1 = Inr s2 \<and>
     key_events GLFW_PRESS (trace s1) = key_events GLFW_PRESS (trace s) @
       (if press_accepted (x11_keyPressTimes (windows s window) (k_keycode ev)) (k_time ev) \<and>
           k_keycode ev \<noteq> 0
        then [glfwInputKey window (translateKey s (k_keycode ev)) (k_keycode ev) GLFW_PRESS
                (translateState (k_state ev))]
        else []) \<and>
     x11_keyPressTimes (windows s1 window) (k_keycode ev) =
       (if press_accepted (x11_keyPressTimes (windows s window) (k_keycode ev)) (k_time ev)
        then k_time ev
        else x11_keyPressTimes (windows s window) (k_keycode ev)) \<and>
     (k_time ev \<noteq> 0 \<longrightarrow> key_events GLFW_PRESS (trace s2) = key_events GLFW_PRESS (trace s1))"
proof -
  note acc = press_allowed_iff [OF assms(9,10,11)]
  from onKeyPress_ic [OF assms(2,3,4), of filtered]
  obtain s1 where s1:
    "onKeyPress E ev filtered window s = Inr s1"
    "key_events GLFW_PRESS (trace s1) = key_events GLFW_PRESS (trace s) @
       (if press_allowed (k_time ev) (x11_keyPressTimes (windows s window) (k_keycode ev)) \<and>
           k_keycode ev \<noteq> 0
        then [glfwInputKey window (translateKey s (k_keycode ev)) (k_keycode ev) GLFW_PRESS
                (translateState (k_state ev))]
        else [])"
    "x11_keyPressTimes (windows s1 window) (k_keycode ev) =
       (if press_allowed (k_time ev) (x11_keyPressTimes (windows s window) (k_keycode ev))
        then k_time ev
        else x11_keyPressTimes (windows s window) (k_keycode ev))"
    "x11_ic (windows s1 window) = x11_ic (windows s window)"
    "context_table s1 = context_table s"
    by blast
  from s1(4) assms(2) have ic1: "x11_ic (windows s1 window) \<noteq> None" by simp
  from assms(3,6) have k': "k_keycode ev' \<le> 255" by simp
  from onKeyPress_ic [OF ic1 k' assms(8), of filtered']
  obtain s2 where s2:
    "onKeyPress E ev' filtered' window s1 = Inr s2"
    "key_events GLFW_PRESS (trace s2) = key_events GLFW_PRESS (trace s1) @
       (if press_allowed (k_time ev') (x11_keyPressTimes (windows s1 window) (k_keycode ev')) \<and>
           k_keycode ev' \<noteq> 0
        then [glfwInputKey window (translateKey s1 (k_keycode ev')) (k_keycode ev') GLFW_PRESS
                (translateState (k_state ev'))]
        else [])"
    by blast
  have again: "k_time ev \<noteq> 0 \<Longrightarrow>
      \<not> press_allowed (k_time ev') (x11_keyPressTimes (windows s1 window) (k_keycode ev'))"
    unfolding assms(6,7) s1(3) by (rule press_allowed_again)
  have p1: "processEvent E A (KeyPress ev) filtered queue s = Inr s1"
    using assms(1) s1(1) by (simp add: processEvent_def)
  have p2: "processEvent E A (KeyPress ev') filtered' queue' s1 = Inr s2"
    using assms(1,5) s1(5) s2(1) by (simp add: processEvent_def)
  from p1 p2 s1(2,3) s2(2) again show ?thesis unfolding acc by auto
qed

theorem key_press_duplicate_suppression_witness:
  "context_table session_state 0x400001 = Some 1 \<and>
   x11_ic (windows session_state 1) \<noteq> None \<and>
   decode_chars (snd (Xutf8LookupString session_env
      \<lparr> k_window = 0x400001, k_keycode = 38, k_state = 0, k_time = 5000 \<rparr>)) = Inr [] \<and>
   timestamp32 5000 \<and> timestamp32 (x11_keyPressTimes (windows session_state 1) 38) \<and>
   \<not> wrapped_within (2 ^ 31) (x11_keyPressTimes (windows session_state 1) 38) 5000 \<and>
   press_accepted (x11_keyPressTimes (windows session_state 1) 38) 5000 \<and>
   (\<exists>s1 s2.
     processEvent session_env session_atoms
       (KeyPress \<lparr> k_window = 0x400001, k_keycode = 38, k_state = 0, k_time = 5000 \<rparr>)
       False [] session_state = Inr s1 \<and>
     processEvent session_env session_atoms
       (KeyPress \<lparr> k_window = 0x400001, k_keycode = 38, k_state = 1, k_time = 5000 \<rparr>)
       False [] s1 = Inr s2 \<and>
     key_events GLFW_PRESS (trace s1) = [glfwInputKey 1 38 38 GLFW_PRESS 0] \<and>
     key_events GLFW_PRESS (trace s2) = [glfwInputKey 1 38 38 GLFW_PRESS 0] \<and>
     x11_keyPressTimes (windows s1 1) 38 = 5000)"
proof -
  have c: "context_table session_state
             (k_window \<lparr> k_window = 0x400001, k_keycode = 38, k_state = 0, k_time = 5000 \<rparr>) = Some 1"
    by (simp add: session_state_def)
  have i: "x11_ic (windows session_state 1) \<noteq> None"
    by (simp add: session_state_def session_window_def)
  have k: "k_keycode \<lparr> k_window = 0x400001, k_keycode = 38, k_state = 0, k_time = 5000 \<rparr> \<le> 255"
    by simp
  have d: "decode_chars (snd (Xutf8LookupString session_env
      \<lparr> k_window = 0x400001, k_keycode = 38, k_state = 0, k_time = 5000 \<rparr>)) = Inr []"
    by (simp add: session_env_def)
  have d': "decode_chars (snd (Xutf8LookupString session_env
      \<lparr> k_window = 0x400001, k_keycode = 38, k_state = 1, k_time = 5000 \<rparr>)) = Inr []"
    by (simp add: session_env_def)
  have st: "x11_keyPressTimes (windows session_state 1) 38 = 0"
    by (simp add: session_state_def session_window_def)
  have ts: "timestamp32 5000" "timestamp32 0" "\<not> wrapped_within (2 ^ 31) 0 5000"
    by (simp_all add: timestamp32_def wrapped_within_def)
  have a: "press_accepted 0 5000"
    by (simp add: press_accepted_def)
  have t: "translateKey session_state 38 = 38" "translateState 0 = 0" "trace session_state = []"
    by (simp_all add: translateKey_def translateState_def session_state_def)
  from key_press_duplicate_suppression
    [OF c i k d _ _ _ d', of session_atoms False "[]" False "[]"]
  show ?thesis
    using c i d a t ts st by (auto simp add: key_events_simps)
qed

text \<open>
  The claim as first stated has exactly one key press for every such pair, lets a
  press through only for a difference that is not zero and below \<open>2 ^ 31\<close>, and
  updates the stored timestamp only when the press is delivered. Four runs on a window
  with an input context show otherwise. The first press of a key is let through
  whatever its timestamp: with nothing stored the difference is the timestamp itself,
  here \<open>2 ^ 31\<close>. Two presses with the timestamp zero are both delivered. Two presses
  with the timestamp already stored for the key are both dropped. A press with key
  code 0 is not delivered, and its timestamp is stored all the same.
\<close>

theorem key_press_comparison_counterexample:
  "map_sum id (key_events GLFW_PRESS \<circ> trace)
     (processEvent session_env session_atoms
        (KeyPress \<lparr> k_window = 0x400001, k_keycode = 38, k_state = 0, k_time = 0x80000000 \<rparr>)
        False [] session_state)
   = Inr [glfwInputKey 1 38 38 GLFW_PRESS 0] \<and>
   \<not> ((0x80000000 :: Time) - x11_keyPressTimes (windows session_state 1) 38 \<noteq> 0 \<and>
      (0x80000000 :: Time) - x11_keyPressTimes (windows session_state 1) 38 < 2 ^ 31) \<and>
   map_sum id (\<lambda>s1. map_sum id (key_events GLFW_PRESS \<circ> trace)
       (processEvent session_env session_atoms
          (KeyPress \<lparr> k_window = 0x400001, k_keycode = 38, k_state = 0, k_time = 0 \<rparr>)
          False [] s1))
     (processEvent session_env session_atoms
        (KeyPress \<lparr> k_window = 0x400001, k_keycode = 38, k_state = 0, k_time = 0 \<rparr>)
        False [] session_state)
   = Inr (Inr [glfwInputKey 1 38 38 GLFW_PRESS 0, glfwInputKey 1 38 38 GLFW_PRESS 0]) \<and>
   map_sum id (\<lambda>s1. map_sum id (key_events GLFW_PRESS \<circ> trace)
       (processEvent session_env session_atoms
          (KeyPress \<lparr> k_window = 0x400001, k_keycode = 38, k_state = 0, k_time = 5000 \<rparr>)
          False [] s1))
     (processEvent session_env session_atoms
        (KeyPress \<lparr> k_window = 0x400001, k_keycode = 38, k_state = 0, k_time = 5000 \<rparr>)
        False []
        (session_state\<lparr>windows := (\<lambda>w. (session_window w)\<lparr>x11_keyPressTimes := (\<lambda>k. 5000)\<rparr>)\<rparr>))
   = Inr (Inr []) \<and>
   map_sum id (\<lambda>s1. (key_events GLFW_PRESS (trace s1), x11_keyPressTimes (windows s1 1) 0))
     (processEvent session_env session_atoms
        (KeyPress \<lparr> k_window = 0x400001, k_keycode = 0, k_state = 0, k_time = 5000 \<rparr>)
        False [] session_state)
   = Inr ([], 5000)"
  by (simp add: processEvent_def onKeyPress_def session_state_def session_window_def
      session_env_def translateKey_def translateState_def Let_def emit_def key_events_def
      press_allowed_def)

text \<open>
  Left open by the theorem above: the clock wraps between two presses of a key 32
  milliseconds apart. The comparison on the 32-bit clock accepts the second press; on
  the 64-bit \<^verbatim>\<open>Time\<close> the difference does not wrap with it, the press is dropped and the
  stored timestamp stays.
\<close>

lemma key_press_clock_wrap:
  "timestamp32 0xFFFFFFF0 \<and> timestamp32 0x10 \<and> wrapped_within (2 ^ 31) 0xFFFFFFF0 0x10 \<and>
   press_accepted 0xFFFFFFF0 0x10 \<and>
   map_sum id (\<lambda>s1. map_sum id
        (\<lambda>s2. (key_events GLFW_PRESS (trace s2), x11_keyPressTimes (windows s2 1) 38))
        (processEvent session_env session_atoms
           (KeyPress \<lparr> k_window = 0x400001, k_keycode = 38, k_state = 0, k_time = 0x10 \<rparr>)
           False [] s1))
     (processEvent session_env session_atoms
        (KeyPress \<lparr> k_window = 0x400001, k_keycode = 38, k_state = 0, k_time = 0xFFFFFFF0 \<rparr>)
        False [] session_state)
   = Inr (Inr ([glfwInputKey 1 38 38 GLFW_PRESS 0], 0xFFFFFFF0))"
  by (simp add: processEvent_def onKeyPress_def session_state_def session_window_def
      session_env_def translateKey_def translateState_def Let_def emit_def key_events_def
      press_allowed_def press_accepted_def timestamp32_def wrapped_within_def)


subsection \<open>The screen saver while monitors are acquired\<close>

lemma saver_calls_simps:
  "saver_calls [] = []"
  "saver_calls (xs @ ys) = saver_calls xs @ saver_calls ys"
  "saver_calls (XGetScreenSaver # xs) = XGetScreenSaver # saver_calls xs"
  "saver_calls (XSetScreenSaver t i b e # xs) = XSetScreenSaver t i b e # saver_calls xs"
  "saver_calls (glfwSetVideoModeX11 m w # xs) = saver_calls xs"
  "saver_calls (glfwRestoreVideoModeX11 m # xs) = saver_calls xs"
  "saver_calls (XMoveResizeWindow_over_monitor h m # xs) = saver_calls xs"
  by (simp_all add: saver_calls_def)

lemma acquireMonitor_steps:
  assumes "monitor (windows s w) = Some m"
  shows "\<exists>s'. acquireMonitor w s = Inr s' \<and>
     saver_count s' = (if monitor_window s m = None then saver_count s + 1 else saver_count s) \<and>
     monitor_window s' = (monitor_window s)(m := Some w) \<and>
     windows s' = windows s \<and>
     saver_calls (trace s') = saver_calls (trace s) @
       (if saver_count s = 0 then [XGetScreenSaver, set_saver disabled_settings] else []) \<and>
     saved_settings s' = (if saver_count s = 0 then server_saver s else saved_settings s) \<and>
     server_saver s' = (if saver_count s = 0 then disabled_settings else server_saver s)"
proof -
  obtain t i b e where sv: "server_saver s = (t, i, b, e)"
    by (cases "server_saver s") auto
  show ?thesis
    using assms sv
    by (simp add: acquireMonitor_def Let_def emit_def glfwInputMonitorWindow_def
        saver_calls_simps saved_settings_def disabled_settings_def)
qed

lemma releaseMonitor_steps:
  assumes "monitor (windows s w) = Some m"
  shows "\<exists>s'. releaseMonitor w s = Inr s' \<and>
     (if monitor_window s m = Some w
      then saver_count s' = saver_count s - 1 \<and>
           monitor_window s' = (monitor_window s)(m := None) \<and>
           windows s' = windows s \<and>
           saver_calls (trace s') = saver_calls (trace s) @
             (if saver_count s = 1 then [set_saver (saved_settings s)] else []) \<and>
           saved_settings s' = saved_settings s \<and>
           server_saver s' = (if saver_count s = 1 then saved_settings s else server_saver s)
      else s' = s)"
  using assms
  by (simp add: releaseMonitor_def Let_def emit_def glfwInputMonitorWindow_def
      saver_calls_simps saved_settings_def)

lemma holding_step:
  assumes "holding W s H" and "call_window c \<in> W"
  shows "\<exists>s'. run_monitor_calls (c # cs) s = run_monitor_calls cs s' \<and>
     holding W s' (holders_step H c) \<and>
     saver_calls (trace s') = saver_calls (trace s) @
       (if is_release c
        then (if H \<noteq> {} \<and> holders_step H c = {} then [set_saver (saved_settings s)] else [])
        else (if H = {} then [XGetScreenSaver, set_saver disabled_settings] else [])) \<and>
     saved_settings s' =
       (if \<not> is_release c \<and> H = {} then server_saver s else saved_settings s) \<and>
     server_saver s' =
       (if is_release c
        then (if H \<noteq> {} \<and> holders_step H c = {} then saved_settings s else server_saver s)
        else (if H = {} then disabled_settings else server_saver s))"
proof -
  from assms(1) have fin: "finite H" and sub: "H \<subseteq> W"
    and cnt: "saver_count s = int (card H)"
    and inj: "inj_on (\<lambda>w. monitor (windows s w)) W"
    and att: "\<forall>w \<in> W. \<exists>m. monitor (windows s w) = Some m \<and>
                    monitor_window s m = (if w \<in> H then Some w else None)"
    by (simp_all add: holding_def)
  have zero: "saver_count s = 0 \<longleftrightarrow> H = {}" using fin cnt by simp
  show ?thesis
  proof (cases c)
    case (Acquire w)
    with assms(2) have w: "w \<in> W" by simp
    with att obtain m where m: "monitor (windows s w) = Some m"
      "monitor_window s m = (if w \<in> H then Some w else None)" by blast
    from acquireMonitor_steps [OF m(1)] obtain s' where s':
      "acquireMonitor w s = Inr s'"
      "saver_count s' = (if monitor_window s m = None then saver_count s + 1 else saver_count s)"
      "monitor_window s' = (monitor_window s)(m := Some w)"
      "windows s' = windows s"
      "saver_calls (trace s') = saver_calls (trace s) @
         (if saver_count s = 0 then [XGetScreenSaver, set_saver disabled_settings] else [])"
      "saved_settings s' = (if saver_count s = 0 then server_saver s else saved_settings s)"
      "server_saver s' = (if saver_count s = 0 then disabled_settings else server_saver s)"
      by blast
    have c': "saver_count s' = int (card (insert w H))"
      using s'(2) m(2) cnt fin by (simp add: card_insert_if)
    have a': "\<forall>w' \<in> W. \<exists>m'. monitor (windows s' w') = Some m' \<and>
                    monitor_window s' m' = (if w' \<in> insert w H then Some w' else None)"
    proof
      fix w' assume w': "w' \<in> W"
      with att obtain m' where m': "monitor (windows s w') = Some m'"
        "monitor_window s m' = (if w' \<in> H then Some w' else None)" by blast
      have same: "m' = m \<longleftrightarrow> w' = w"
      proof
        assume "m' = m"
        with m(1) m'(1) have "monitor (windows s w') = monitor (windows s w)" by simp
        with inj_onD [OF inj, of w' w] w w' show "w' = w" by simp
      next
        assume "w' = w"
        with m(1) m'(1) show "m' = m" by simp
      qed
      have "monitor_window s' m' = (if w' \<in> insert w H then Some w' else None)"
      proof (cases "w' = w")
        case True
        with same s'(3) show ?thesis by simp
      next
        case False
        with same have "m' \<noteq> m" by simp
        with s'(3) m'(2) False show ?thesis by simp
      qed
      with m'(1) s'(4) show "\<exists>m'. monitor (windows s' w') = Some m' \<and>
                    monitor_window s' m' = (if w' \<in> insert w H then Some w' else None)"
        by simp
    qed
    have h': "holding W s' (holders_step H c)"
      using Acquire fin sub w c' inj s'(4) a' by (simp add: holding_def)
    show ?thesis
      apply (rule exI [of _ s'])
      using Acquire h' s'(1,5,6,7) zero by simp
  next
    case (Release w)
    with assms(2) have w: "w \<in> W" by simp
    with att obtain m where m: "monitor (windows s w) = Some m"
      "monitor_window s m = (if w \<in> H then Some w else None)" by blast
    show ?thesis
    proof (cases "w \<in> H")
      case False
      with m(2) have "monitor_window s m \<noteq> Some w" by simp
      with releaseMonitor_steps [OF m(1)] have r: "releaseMonitor w s = Inr s" by auto
      from False have e: "H - {w} = H" by simp
      show ?thesis
        apply (rule exI [of _ s])
        using Release r e assms(1) by auto
    next
      case True
      with m(2) have mw: "monitor_window s m = Some w" by simp
      from releaseMonitor_steps [OF m(1)] mw obtain s' where s':
        "releaseMonitor w s = Inr s'"
        "saver_count s' = saver_count s - 1"
        "monitor_window s' = (monitor_window s)(m := None)"
        "windows s' = windows s"
        "saver_calls (trace s') = saver_calls (trace s) @
           (if saver_count s = 1 then [set_saver (saved_settings s)] else [])"
        "saved_settings s' = saved_settings s"
        "server_saver s' = (if saver_count s = 1 then saved_settings s else server_saver s)"
        by auto
      have pos: "0 < card H" using True fin by (auto simp add: card_gt_0_iff)
      have c': "saver_count s' = int (card (H - {w}))"
        using s'(2) cnt True fin pos by (simp add: card_Diff_singleton)
      have one: "saver_count s = 1 \<longleftrightarrow> H - {w} = {}"
      proof -
        have "saver_count s = 1 \<longleftrightarrow> card (H - {w}) = 0"
          using cnt True fin pos by (simp add: card_Diff_singleton) arith
        also have "\<dots> \<longleftrightarrow> H - {w} = {}" using fin by simp
        finally show ?thesis .
      qed
      have ne: "H \<noteq> {}" using True by auto
      have a': "\<forall>w' \<in> W. \<exists>m'. monitor (windows s' w') = Some m' \<and>
                    monitor_window s' m' = (if w' \<in> H - {w} then Some w' else None)"
      proof
        fix w' assume w': "w' \<in> W"
        with att obtain m' where m': "monitor (windows s w') = Some m'"
          "monitor_window s m' = (if w' \<in> H then Some w' else None)" by blast
        have same: "m' = m \<longleftrightarrow> w' = w"
        proof
          assume "m' = m"
          with m(1) m'(1) have "monitor (windows s w') = monitor (windows s w)" by simp
          with inj_onD [OF inj, of w' w] w w' show "w' = w" by simp
        next
          assume "w' = w"
          with m(1) m'(1) show "m' = m" by simp
        qed
        have "monitor_window s' m' = (if w' \<in> H - {w} then Some w' else None)"
        proof (cases "w' = w")
          case True
          with same s'(3) show ?thesis by simp
        next
          case False
          with same have "m' \<noteq> m" by simp
          with s'(3) m'(2) False show ?thesis by simp
        qed
        with m'(1) s'(4) show "\<exists>m'. monitor (windows s' w') = Some m' \<and>
                    monitor_window s' m' = (if w' \<in> H - {w} then Some w' else None)"
          by simp
      qed
      have h': "holding W s' (holders_step H c)"
        using Release fin sub c' inj s'(4) a' by (auto simp add: holding_def)
      show ?thesis
        apply (rule exI [of _ s'])
        using Release h' s'(1,5,6,7) one ne by simp
    qed
  qed
qed


lemma releases_idle:
  assumes "holding W s {}" and "list_all is_release cs" and "call_window ` set cs \<subseteq> W"
  shows "run_monitor_calls cs s = Inr s \<and> holders_after {} cs = {}"
  using assms(2,3)
proof (induction cs)
  case Nil
  show ?case by (simp add: holders_after_def)
next
  case (Cons c cs)
  from Cons.prems(1) obtain w where c: "c = Release w" by (cases c) auto
  from Cons.prems(2) have "call_window c \<in> W" by simp
  from holding_step [OF assms(1) this, of cs] c obtain s' where s':
    "run_monitor_calls (c # cs) s = run_monitor_calls cs s'" by blast
  from Cons.prems(2) c have w: "w \<in> W" by simp
  with assms(1) obtain m where m: "monitor (windows s w) = Some m" "monitor_window s m = None"
    by (auto simp add: holding_def)
  with releaseMonitor_steps [OF m(1)] have "releaseMonitor w s = Inr s" by auto
  with c have "run_monitor_calls (c # cs) s = run_monitor_calls cs s" by simp
  with Cons c show ?case by (simp add: holders_after_def)
qed

lemma within_period:
  assumes "holding W s H" and "H \<noteq> {}" and "call_window ` set cs \<subseteq> W"
    and "single_period_from H cs"
  shows "\<exists>s'. run_monitor_calls cs s = Inr s' \<and>
     holding W s' (holders_after H cs) \<and>
     saver_calls (trace s') = saver_calls (trace s) @
       (if holders_after H cs = {} then [set_saver (saved_settings s)] else []) \<and>
     (holders_after H cs = {} \<longrightarrow> server_saver s' = saved_settings s)"
  using assms
proof (induction cs arbitrary: s H)
  case Nil
  show ?case
    apply (rule exI [of _ s])
    using Nil.prems(1,2) by (simp add: holders_after_def)
next
  case (Cons c cs)
  from Cons.prems(3) have cw: "call_window c \<in> W" and sub: "call_window ` set cs \<subseteq> W"
    by simp_all
  have acq: "\<not> is_release c \<Longrightarrow> holders_step H c \<noteq> {}" by (cases c) auto
  from holding_step [OF Cons.prems(1) cw, of cs] obtain s1 where s1_all:
    "run_monitor_calls (c # cs) s = run_monitor_calls cs s1"
    "holding W s1 (holders_step H c)"
    "saver_calls (trace s1) = saver_calls (trace s) @
       (if is_release c
        then (if H \<noteq> {} \<and> holders_step H c = {} then [set_saver (saved_settings s)] else [])
        else (if H = {} then [XGetScreenSaver, set_saver disabled_settings] else []))"
    "saved_settings s1 =
       (if \<not> is_release c \<and> H = {} then server_saver s else saved_settings s)"
    "server_saver s1 =
       (if is_release c
        then (if H \<noteq> {} \<and> holders_step H c = {} then saved_settings s else server_saver s)
        else (if H = {} then disabled_settings else server_saver s))"
    by blast
  note s1 = s1_all(1,2)
  have s1_calls: "saver_calls (trace s1) = saver_calls (trace s) @
       (if holders_step H c = {} then [set_saver (saved_settings s)] else [])"
    using s1_all(3) Cons.prems(2) acq by (cases "is_release c") simp_all
  have s1_saved: "saved_settings s1 = saved_settings s"
    using s1_all(4) Cons.prems(2) by simp
  have s1_server: "holders_step H c = {} \<longrightarrow> server_saver s1 = saved_settings s"
    using s1_all(5) Cons.prems(2) acq by (cases "is_release c") simp_all
  have fold: "holders_after H (c # cs) = holders_after (holders_step H c) cs"
    by (simp add: holders_after_def)
  show ?case
  proof (cases "holders_step H c = {}")
    case True
    with Cons.prems(2,4) have rel: "list_all is_release cs" by simp
    from s1(2) True have "holding W s1 {}" by simp
    from releases_idle [OF this rel sub]
    have idle: "run_monitor_calls cs s1 = Inr s1" "holders_after {} cs = {}" by simp_all
    show ?thesis
      apply (rule exI [of _ s1])
      using s1 s1_calls s1_server True idle fold by simp
  next
    case False
    with Cons.prems(2,4) have sp: "single_period_from (holders_step H c) cs" by simp
    from Cons.IH [OF s1(2) False sub sp] obtain s' where s':
      "run_monitor_calls cs s1 = Inr s'"
      "holding W s' (holders_after (holders_step H c) cs)"
      "saver_calls (trace s') = saver_calls (trace s1) @
         (if holders_after (holders_step H c) cs = {} then [set_saver (saved_settings s1)] else [])"
      "holders_after (holders_step H c) cs = {} \<longrightarrow> server_saver s' = saved_settings s1"
      by blast
    show ?thesis
      apply (rule exI [of _ s'])
      using s1 s1_calls s1_saved s' False fold by simp
  qed
qed

lemma single_period_run:
  assumes "holding W s {}" and "call_window ` set cs \<subseteq> W" and "single_period_from {} cs"
  shows "\<exists>s'. run_monitor_calls cs s = Inr s' \<and>
     holding W s' (holders_after {} cs) \<and>
     saver_calls (trace s') = saver_calls (trace s) @
       (if list_all is_release cs then []
        else [XGetScreenSaver, set_saver disabled_settings] @
             (if holders_after {} cs = {} then [set_saver (server_saver s)] else [])) \<and>
     (holders_after {} cs = {} \<longrightarrow> server_saver s' = server_saver s)"
  using assms(2,3)
proof (induction cs)
  case Nil
  show ?case
    apply (rule exI [of _ s])
    using assms(1) by (simp add: holders_after_def)
next
  case (Cons c cs)
  from Cons.prems(1) have cw: "call_window c \<in> W" and sub: "call_window ` set cs \<subseteq> W"
    by simp_all
  show ?case
  proof (cases c)
    case (Release w)
    from cw Release assms(1) obtain m where m: "monitor (windows s w) = Some m"
      "monitor_window s m = None"
      by (auto simp add: holding_def)
    with releaseMonitor_steps [OF m(1)] have "releaseMonitor w s = Inr s" by auto
    with Release have run: "run_monitor_calls (c # cs) s = run_monitor_calls cs s" by simp
    from Cons.prems(2) Release have sp: "single_period_from {} cs" by simp
    have fold: "holders_after {} (c # cs) = holders_after {} cs"
      using Release by (simp add: holders_after_def)
    from Cons.IH [OF sub sp] show ?thesis
      unfolding run fold using Release by simp
  next
    case (Acquire w)
    from holding_step [OF assms(1) cw, of cs] Acquire obtain s1 where s1:
      "run_monitor_calls (c # cs) s = run_monitor_calls cs s1"
      "holding W s1 {w}"
      "saver_calls (trace s1) = saver_calls (trace s) @
         [XGetScreenSaver, set_saver disabled_settings]"
      "saved_settings s1 = server_saver s"
      by auto
    from Cons.prems(2) Acquire have sp: "single_period_from {w} cs" by simp
    have fold: "holders_after {} (c # cs) = holders_after {w} cs"
      using Acquire by (simp add: holders_after_def)
    have ne: "{w} \<noteq> {}" by simp
    from within_period [OF s1(2) ne sub sp] obtain s' where s':
      "run_monitor_calls cs s1 = Inr s'"
      "holding W s' (holders_after {w} cs)"
      "saver_calls (trace s') = saver_calls (trace s1) @
         (if holders_after {w} cs = {} then [set_saver (saved_settings s1)] else [])"
      "holders_after {w} cs = {} \<longrightarrow> server_saver s' = saved_settings s1"
      by blast
    show ?thesis
      apply (rule exI [of _ s'])
      using s1 s' fold Acquire by simp
  qed
qed

text \<open>
  Claim C7, as amended. Windows with a monitor each, no two the same and none attached
  to a window, acquire and release their monitors in any order, starting with a count
  of zero, and no window acquires a monitor after the count has returned to zero. All
  calls return, and the count is then the number of windows holding their monitor.
  Among the calls made, the screen saver requests are: none when no window acquired;
  otherwise the query that saves the prior settings and the request that disables the
  screen saver, once each, followed when the count has returned to zero by the one
  request that sets the prior settings again, which the server then holds. For every
  call, an acquisition adds one to the count exactly when the window's monitor had no
  window attached, and a release subtracts one when the monitor was attached to that
  window and changes nothing otherwise.
\<close>

theorem screen_saver_reference_counting:
  assumes "single_period cs"
    and "inj_on (\<lambda>w. monitor (windows s w)) (call_window ` set cs)"
    and "\<forall>w \<in> call_window ` set cs.
           \<exists>m. monitor (windows s w) = Some m \<and> monitor_window s m = None"
    and "saver_count s = 0"
  shows "(\<exists>s'. run_monitor_calls cs s = Inr s' \<and>
            saver_count s' = int (card (holders_after {} cs)) \<and>
            saver_calls (trace s') = saver_calls (trace s) @
              (if list_all is_release cs then []
               else [XGetScreenSaver, set_saver disabled_settings] @
                    (if saver_count s' = 0 then [set_saver (server_saver s)] else [])) \<and>
            (saver_count s' = 0 \<longrightarrow> server_saver s' = server_saver s)) \<and>
         (\<forall>t w m. monitor (windows t w) = Some m \<longrightarrow>
            (\<exists>t'. acquireMonitor w t = Inr t' \<and>
                  saver_count t' =
                    (if monitor_window t m = None then saver_count t + 1 else saver_count t))) \<and>
         (\<forall>t w m. monitor (windows t w) = Some m \<longrightarrow>
            (\<exists>t'. releaseMonitor w t = Inr t' \<and>
                  (if monitor_window t m = Some w then saver_count t' = saver_count t - 1
                   else t' = t)))"
proof -
  have h: "holding (call_window ` set cs) s {}"
    using assms(2,3,4) by (simp add: holding_def)
  have sp: "single_period_from {} cs" using assms(1) by (simp add: single_period_def)
  from single_period_run [OF h subset_refl sp] obtain s' where s':
    "run_monitor_calls cs s = Inr s'"
    "holding (call_window ` set cs) s' (holders_after {} cs)"
    "saver_calls (trace s') = saver_calls (trace s) @
       (if list_all is_release cs then []
        else [XGetScreenSaver, set_saver disabled_settings] @
             (if holders_after {} cs = {} then [set_saver (server_saver s)] else []))"
    "holders_after {} cs = {} \<longrightarrow> server_saver s' = server_saver s"
    by blast
  from s'(2) have cnt: "saver_count s' = int (card (holders_after {} cs))"
    and fin: "finite (holders_after {} cs)"
    by (simp_all add: holding_def)
  from cnt fin have zero: "saver_count s' = 0 \<longleftrightarrow> holders_after {} cs = {}" by simp
  have scenario: "\<exists>s'. run_monitor_calls cs s = Inr s' \<and>
            saver_count s' = int (card (holders_after {} cs)) \<and>
            saver_calls (trace s') = saver_calls (trace s) @
              (if list_all is_release cs then []
               else [XGetScreenSaver, set_saver disabled_settings] @
                    (if saver_count s' = 0 then [set_saver (server_saver s)] else [])) \<and>
            (saver_count s' = 0 \<longrightarrow> server_saver s' = server_saver s)"
    apply (rule exI [of _ s'])
    using s'(1,3,4) cnt zero by simp
  have acq: "\<forall>t w m. monitor (windows t w) = Some m \<longrightarrow>
            (\<exists>t'. acquireMonitor w t = Inr t' \<and>
                  saver_count t' =
                    (if monitor_window t m = None then saver_count t + 1 else saver_count t))"
    using acquireMonitor_steps by blast
  have rel: "\<forall>t w m. monitor (windows t w) = Some m \<longrightarrow>
            (\<exists>t'. releaseMonitor w t = Inr t' \<and>
                  (if monitor_window t m = Some w then saver_count t' = saver_count t - 1
                   else t' = t))"
  proof (intro allI impI)
    fix t :: x11_state and w :: wptr and m :: mptr
    assume "monitor (windows t w) = Some m"
    from releaseMonitor_steps [OF this] show "\<exists>t'. releaseMonitor w t = Inr t' \<and>
                  (if monitor_window t m = Some w then saver_count t' = saver_count t - 1
                   else t' = t)"
      by (cases "monitor_window t m = Some w") auto
  qed
  from scenario acq rel show ?thesis by blast
qed

theorem screen_saver_reference_counting_witness:
  "single_period [Acquire 1, Acquire 2, Release 1, Acquire 3, Release 2, Release 3] \<and>
   monitor (windows session_state 1) = Some 11 \<and> monitor_window session_state 11 = None \<and>
   monitor (windows session_state 2) = Some 12 \<and> monitor_window session_state 12 = None \<and>
   monitor (windows session_state 3) = Some 13 \<and> monitor_window session_state 13 = None \<and>
   saver_count session_state = 0 \<and>
   (\<exists>s'. run_monitor_calls [Acquire 1, Acquire 2, Release 1, Acquire 3, Release 2, Release 3]
           session_state = Inr s' \<and>
         saver_calls (trace s') =
           [XGetScreenSaver, XSetScreenSaver 0 0 0 2, XSetScreenSaver 600 600 1 1] \<and>
         saver_count s' = 0 \<and> server_saver s' = (600, 600, 1, 1)) \<and>
   single_period [Acquire 1, Acquire 2, Release 1] \<and>
   (\<exists>s'. run_monitor_calls [Acquire 1, Acquire 2, Release 1] session_state = Inr s' \<and>
         saver_calls (trace s') = [XGetScreenSaver, XSetScreenSaver 0 0 0 2] \<and>
         saver_count s' = 1)"
proof -
  have p: "single_period [Acquire 1, Acquire 2, Release 1, Acquire 3, Release 2, Release 3]"
    "single_period [Acquire 1, Acquire 2, Release 1]"
    by (simp_all add: single_period_def)
  have ws: "call_window ` set [Acquire 1, Acquire 2, Release 1, Acquire 3, Release 2, Release 3]
      = {1, 2, 3}"
    "call_window ` set [Acquire 1, Acquire 2, Release 1] = {1, 2}"
    by auto
  have i: "inj_on (\<lambda>w. monitor (windows session_state w))
      (call_window ` set [Acquire 1, Acquire 2, Release 1, Acquire 3, Release 2, Release 3])"
    "inj_on (\<lambda>w. monitor (windows session_state w))
      (call_window ` set [Acquire 1, Acquire 2, Release 1])"
    unfolding ws by (simp_all add: session_state_def session_window_def)
  have f: "\<forall>w \<in> call_window `
        set [Acquire 1, Acquire 2, Release 1, Acquire 3, Release 2, Release 3].
      \<exists>m. monitor (windows session_state w) = Some m \<and> monitor_window session_state m = None"
    "\<forall>w \<in> call_window ` set [Acquire 1, Acquire 2, Release 1].
      \<exists>m. monitor (windows session_state w) = Some m \<and> monitor_window session_state m = None"
    unfolding ws by (simp_all add: session_state_def session_window_def)
  have c: "saver_count session_state = 0" "trace session_state = []"
    "server_saver session_state = (600, 600, 1, 1)"
    by (simp_all add: session_state_def)
  have g: "monitor (windows session_state 1) = Some 11" "monitor_window session_state 11 = None"
    "monitor (windows session_state 2) = Some 12" "monitor_window session_state 12 = None"
    "monitor (windows session_state 3) = Some 13" "monitor_window session_state 13 = None"
    by (simp_all add: session_state_def session_window_def)
  have r: "list_all is_release [Acquire 1, Acquire 2, Release 1, Acquire 3, Release 2, Release 3]
      = False"
    "list_all is_release [Acquire 1, Acquire 2, Release 1] = False"
    "holders_after {} [Acquire 1, Acquire 2, Release 1, Acquire 3, Release 2, Release 3] = {}"
    "card (holders_after {} [Acquire 1, Acquire 2, Release 1]) = 1"
    by (simp_all add: holders_after_def insert_Diff_if)
  from screen_saver_reference_counting [OF p(1) i(1) f(1) c(1)]
  obtain s' where s':
    "run_monitor_calls [Acquire 1, Acquire 2, Release 1, Acquire 3, Release 2, Release 3]
       session_state = Inr s'"
    "saver_count s' = 0"
    "saver_calls (trace s') = [XGetScreenSaver, set_saver disabled_settings,
       set_saver (server_saver session_state)]"
    "server_saver s' = server_saver session_state"
    unfolding r using c(2) by (auto simp add: saver_calls_simps)
  from screen_saver_reference_counting [OF p(2) i(2) f(2) c(1)]
  obtain s2 where s2:
    "run_monitor_calls [Acquire 1, Acquire 2, Release 1] session_state = Inr s2"
    "saver_count s2 = 1"
    "saver_calls (trace s2) = [XGetScreenSaver, set_saver disabled_settings]"
    unfolding r using c(2) by (auto simp add: saver_calls_simps)
  have d: "set_saver disabled_settings = XSetScreenSaver 0 0 0 2"
    "set_saver (600, 600, 1, 1) = XSetScreenSaver 600 600 1 1"
    by (simp_all add: disabled_settings_def DontPreferBlanking_def DefaultExposures_def)
  from p g c(1) s' s2 show ?thesis
    unfolding c(3) d by simp
qed

text \<open>
  The claim as first stated speaks of every sequence of acquisitions and releases.
  When the first window releases its monitor before the second acquires its own, the
  count returns to zero in between: the screen saver is disabled twice and restored
  twice.
\<close>

theorem screen_saver_interleaved_counterexample:
  "map_sum id (saver_calls \<circ> trace)
     (run_monitor_calls [Acquire 1, Release 1, Acquire 2, Release 2] session_state)
   = Inr [XGetScreenSaver, XSetScreenSaver 0 0 0 2, XSetScreenSaver 600 600 1 1,
          XGetScreenSaver, XSetScreenSaver 0 0 0 2, XSetScreenSaver 600 600 1 1]"
  by (simp add: acquireMonitor_def releaseMonitor_def session_state_def session_window_def
      Let_def emit_def glfwInputMonitorWindow_def saver_calls_def DontPreferBlanking_def
      DefaultExposures_def)

end
